theory Spec2Isabelle
  imports Main "HOL-Library.AList" "HOL-Library.Sublist"
begin

section \<open>Python values\<close>

text \<open>
  Both tools work on what \<^verbatim>\<open>json.load\<close> returns: \<^verbatim>\<open>None\<close>, booleans, integers,
  strings, lists and dicts with string keys. A dict is an association list in insertion
  order; a lookup takes the first entry of a key and \<open>AList.update\<close> overwrites in place
  or appends, as a Python dict does. A string is a list of code points below 256.
  Numbers with a fraction are left out: the code below reads a number only through its
  truth value and \<^verbatim>\<open>str()\<close>.
\<close>

datatype json =
    JNull
  | JBool bool
  | JInt int
  | JStr string
  | JList "json list"
  | JObj "(string \<times> json) list"

type_synonym dict = "(string \<times> json) list"

text \<open>What the code can raise. \<open>SystemExit\<close> carries the message printed before \<^verbatim>\<open>sys.exit(1)\<close>.\<close>

datatype error =
    SystemExit string
  | AttributeError
  | TypeError
  | KeyError
  | UnicodeDecodeError

text \<open>The truth value of a Python object, as \<^verbatim>\<open>if x\<close> and \<^verbatim>\<open>x or y\<close> test it.\<close>

fun truthy :: "json \<Rightarrow> bool" where
  "truthy JNull = False"
| "truthy (JBool b) = b"
| "truthy (JInt i) = (i \<noteq> 0)"
| "truthy (JStr s) = (s \<noteq> [])"
| "truthy (JList xs) = (xs \<noteq> [])"
| "truthy (JObj d) = (d \<noteq> [])"

definition py_or :: "json \<Rightarrow> json \<Rightarrow> json" where
  "py_or x y = (if truthy x then x else y)"

text \<open>\<^verbatim>\<open>d.get(k)\<close>: the value, or \<^verbatim>\<open>None\<close> for an absent key.\<close>

definition dict_get :: "dict \<Rightarrow> string \<Rightarrow> json" where
  "dict_get d k = (case map_of d k of None \<Rightarrow> JNull | Some v \<Rightarrow> v)"

text \<open>\<^verbatim>\<open>d.setdefault(k, v)\<close>, for the dict it leaves behind.\<close>

definition setdefault :: "string \<Rightarrow> json \<Rightarrow> dict \<Rightarrow> dict" where
  "setdefault k v d = (case map_of d k of None \<Rightarrow> d @ [(k, v)] | Some _ \<Rightarrow> d)"

text \<open>
  \<^verbatim>\<open>str.strip()\<close> removes leading and trailing whitespace: the code points for which
  \<^verbatim>\<open>str.isspace\<close> holds, which below 256 are 9 to 13, 28 to 32, 133 and 160.
\<close>

definition is_space :: "char \<Rightarrow> bool" where
  "is_space c = ((of_char c :: nat) \<in> {9, 10, 11, 12, 13, 28, 29, 30, 31, 32, 133, 160})"

definition strip :: "string \<Rightarrow> string" where
  "strip s = rev (dropWhile is_space (rev (dropWhile is_space s)))"

text \<open>Decimal digits of an integer, as \<^verbatim>\<open>str(n)\<close> prints them.\<close>

fun show_nat :: "nat \<Rightarrow> string" where
  "show_nat n =
     (if n < 10 then [''0123456789'' ! n]
      else show_nat (n div 10) @ [''0123456789'' ! (n mod 10)])"

declare show_nat.simps [simp del]

definition show_int :: "int \<Rightarrow> string" where
  "show_int i = (if i < 0 then CHR ''-'' # show_nat (nat (- i)) else show_nat (nat i))"

text \<open>
  \<^verbatim>\<open>str(x)\<close>. On a list or a dict it is Python's \<^verbatim>\<open>repr\<close>, whose quoting rules no
  function here depends on: that rendering is the parameter \<open>repr\<close>, and what is proved
  holds for every rendering.
\<close>

fun py_str :: "(json \<Rightarrow> string) \<Rightarrow> json \<Rightarrow> string" where
  "py_str repr (JStr s) = s"
| "py_str repr JNull = ''None''"
| "py_str repr (JBool b) = (if b then ''True'' else ''False'')"
| "py_str repr (JInt i) = show_int i"
| "py_str repr (JList xs) = repr (JList xs)"
| "py_str repr (JObj d) = repr (JObj d)"

text \<open>
  Python's own \<^verbatim>\<open>repr\<close>, for evaluating the functions at concrete inputs. A string is
  quoted with \<^verbatim>\<open>'\<close>, or with \<^verbatim>\<open>"\<close> when it holds a \<^verbatim>\<open>'\<close> and no \<^verbatim>\<open>"\<close>; the
  quote and the backslash are escaped, tab, newline and carriage return are written
  \<^verbatim>\<open>\t\<close>, \<^verbatim>\<open>\n\<close>, \<^verbatim>\<open>\r\<close>, and every other unprintable code point as \<^verbatim>\<open>\xhh\<close>.
\<close>

definition hex2 :: "nat \<Rightarrow> string" where
  "hex2 n = [''0123456789abcdef'' ! (n div 16), ''0123456789abcdef'' ! (n mod 16)]"

definition repr_char :: "char \<Rightarrow> char \<Rightarrow> string" where
  "repr_char q c =
     (let n = (of_char c :: nat) in
      if c = q \<or> n = 92 then [CHR 0x5C, c]
      else if n = 9 then [CHR 0x5C, CHR ''t'']
      else if n = 10 then [CHR 0x5C, CHR ''n'']
      else if n = 13 then [CHR 0x5C, CHR ''r'']
      else if n < 32 \<or> n = 127 then CHR 0x5C # CHR ''x'' # hex2 n
      else if n < 127 then [c]
      else if n \<le> 160 \<or> n = 173 then CHR 0x5C # CHR ''x'' # hex2 n
      else [c])"

definition repr_str :: "string \<Rightarrow> string" where
  "repr_str s =
     (let q = (if CHR 0x27 \<in> set s \<and> CHR 0x22 \<notin> set s then CHR 0x22 else CHR 0x27)
      in q # concat (map (repr_char q) s) @ [q])"

fun join :: "string \<Rightarrow> string list \<Rightarrow> string" where
  "join sep [] = []"
| "join sep [x] = x"
| "join sep (x # y # ys) = x @ sep @ join sep (y # ys)"

fun py_repr :: "json \<Rightarrow> string" where
  "py_repr (JStr s) = repr_str s"
| "py_repr JNull = ''None''"
| "py_repr (JBool b) = (if b then ''True'' else ''False'')"
| "py_repr (JInt i) = show_int i"
| "py_repr (JList xs) = ''['' @ join '', '' (map py_repr xs) @ '']''"
| "py_repr (JObj d) =
     ''{'' @ join '', '' (map (\<lambda>kv. repr_str (fst kv) @ '': '' @ py_repr (snd kv)) d) @ ''}''"

text \<open>
  What a \<^verbatim>\<open>for\<close> loop over a value visits: the elements of a list, the keys of a
  dict, the characters of a string; anything else is not iterable.
\<close>

fun py_iter :: "json \<Rightarrow> error + json list" where
  "py_iter (JList xs) = Inr xs"
| "py_iter (JObj d) = Inr (map (\<lambda>kv. JStr (fst kv)) d)"
| "py_iter (JStr s) = Inr (map (\<lambda>c. JStr [c]) s)"
| "py_iter JNull = Inl TypeError"
| "py_iter (JBool b) = Inl TypeError"
| "py_iter (JInt i) = Inl TypeError"

fun is_record :: "json \<Rightarrow> bool" where
  "is_record (JObj d) = True"
| "is_record JNull = False"
| "is_record (JBool b) = False"
| "is_record (JInt i) = False"
| "is_record (JStr s) = False"
| "is_record (JList xs) = False"

section \<open>newsdata_client.py\<close>

subsection \<open>article_key\<close>

text \<open>
  The three normalised fields \<open>article_key\<close> computes, each
  \<^verbatim>\<open>str(item.get(k) or "").strip()\<close>, with a second key tried for the date and the
  source.
\<close>

definition field_text :: "(json \<Rightarrow> string) \<Rightarrow> dict \<Rightarrow> string \<Rightarrow> string" where
  "field_text repr d k = strip (py_str repr (py_or (dict_get d k) (JStr [])))"

definition field_text2 :: "(json \<Rightarrow> string) \<Rightarrow> dict \<Rightarrow> string \<Rightarrow> string \<Rightarrow> string" where
  "field_text2 repr d k k' =
     strip (py_str repr (py_or (py_or (dict_get d k) (dict_get d k')) (JStr [])))"

text \<open>
  The body of \<open>article_key\<close> on a dict: the first non-empty field decides the key, and
  the f-string puts the name of the rule in front.
\<close>

definition record_key :: "(json \<Rightarrow> string) \<Rightarrow> dict \<Rightarrow> string" where
  "record_key repr item =
     (let article_id = field_text repr item ''article_id'' in
      if article_id \<noteq> [] then ''id:'' @ article_id
      else
        let link = field_text repr item ''link'' in
        if link \<noteq> [] then ''link:'' @ link
        else
          let title = field_text repr item ''title'';
              pub_date = field_text2 repr item ''pubDate'' ''published_at'';
              source = field_text2 repr item ''source_id'' ''source_name''
          in ''fallback:'' @ title @ ''|'' @ pub_date @ ''|'' @ source)"

text \<open>
  \<^verbatim>\<open>item.get\<close> exists on a dict only: on any other value the first line of
  \<open>article_key\<close> raises AttributeError.
\<close>

fun article_key :: "(json \<Rightarrow> string) \<Rightarrow> json \<Rightarrow> error + string" where
  "article_key repr (JObj item) = Inr (record_key repr item)"
| "article_key repr JNull = Inl AttributeError"
| "article_key repr (JBool b) = Inl AttributeError"
| "article_key repr (JInt i) = Inl AttributeError"
| "article_key repr (JStr s) = Inl AttributeError"
| "article_key repr (JList xs) = Inl AttributeError"

text \<open>The branch of \<open>article_key\<close> that returns, for a record.\<close>

datatype tier = TierId | TierLink | TierFallback

definition tier_of :: "(json \<Rightarrow> string) \<Rightarrow> dict \<Rightarrow> tier" where
  "tier_of repr item =
     (if field_text repr item ''article_id'' \<noteq> [] then TierId
      else if field_text repr item ''link'' \<noteq> [] then TierLink
      else TierFallback)"

subsection \<open>load_dump\<close>

text \<open>
  What is at a path: nothing, a file that cannot be opened or read (OSError), a file whose
  bytes are not UTF-8 (\<^verbatim>\<open>handle.read()\<close> raises UnicodeDecodeError, which the
  \<^verbatim>\<open>except\<close> clause does not catch), or a file with its text.
\<close>

datatype file_state = Missing | Unreadable | Undecodable | Text string

definition fresh_dump :: dict where
  "fresh_dump =
     [(''schema_version'', JStr ''1.0''), (''updated_at'', JNull),
      (''articles'', JList []), (''requests'', JList [])]"

fun is_list :: "json \<Rightarrow> bool" where
  "is_list (JList xs) = True"
| "is_list JNull = False"
| "is_list (JBool b) = False"
| "is_list (JInt i) = False"
| "is_list (JStr s) = False"
| "is_list (JObj d) = False"

text \<open>\<^verbatim>\<open>if not isinstance(data[k], list): data[k] = []\<close>, after \<open>setdefault\<close> made the key present.\<close>

definition coerce_list :: "string \<Rightarrow> dict \<Rightarrow> dict" where
  "coerce_list k d = (if is_list (dict_get d k) then d else AList.update k (JList []) d)"

text \<open>
  \<^verbatim>\<open>json.loads\<close> is the parameter \<open>loads\<close>: \<open>None\<close> is JSONDecodeError. The file
  system is \<open>fs\<close>.
\<close>

definition load_dump :: "(string \<Rightarrow> json option) \<Rightarrow> (string \<Rightarrow> file_state) \<Rightarrow> string \<Rightarrow> error + dict" where
  "load_dump loads fs path =
     (case fs path of
        Missing \<Rightarrow> Inr fresh_dump
      | Unreadable \<Rightarrow> Inl (SystemExit (''Failed to read or parse '' @ path))
      | Undecodable \<Rightarrow> Inl UnicodeDecodeError
      | Text raw \<Rightarrow>
          (let content = strip raw in
           if content = [] then Inr fresh_dump
           else
             (case loads content of
                None \<Rightarrow> Inl (SystemExit (''Failed to read or parse '' @ path))
              | Some (JList xs) \<Rightarrow>
                  Inr [(''schema_version'', JStr ''1.0''), (''updated_at'', JNull),
                       (''articles'', JList xs), (''requests'', JList [])]
              | Some (JObj data) \<Rightarrow>
                  Inr (coerce_list ''requests'' (coerce_list ''articles''
                         (setdefault ''requests'' (JList [])
                           (setdefault ''articles'' (JList [])
                             (setdefault ''updated_at'' JNull
                               (setdefault ''schema_version'' (JStr ''1.0'') data))))))
              | Some _ \<Rightarrow> Inl (SystemExit (''Unexpected JSON format in '' @ path)))))"

subsection \<open>main: the merge\<close>

record args =
  query :: "string option"
  category :: string
  country :: string
  language :: string
  size_arg :: int
  page :: "string option"
  output_path :: string

definition opt_str :: "string option \<Rightarrow> json" where
  "opt_str x = (case x of None \<Rightarrow> JNull | Some s \<Rightarrow> JStr s)"

text \<open>The dict written twice in \<open>main\<close>, as \<^verbatim>\<open>query_params\<close> of an item and \<^verbatim>\<open>params\<close> of a request.\<close>

definition query_params :: "args \<Rightarrow> json" where
  "query_params a =
     JObj [(''query'', opt_str (query a)), (''category'', JStr (category a)),
           (''country'', JStr (country a)), (''language'', JStr (language a)),
           (''size'', JInt (size_arg a)), (''page'', opt_str (page a))]"

text \<open>Lines 193 to 201: the two assignments to the item before it is appended.\<close>

definition stamp :: "string \<Rightarrow> args \<Rightarrow> dict \<Rightarrow> dict" where
  "stamp fetched_at a item =
     AList.update ''query_params'' (query_params a)
       (AList.update ''fetched_at'' (JStr fetched_at) item)"

text \<open>
  \<^verbatim>\<open>item[k] = v\<close> for a string \<open>k\<close>: on a dict it stores; a list wants an integer index
  and nothing else supports item assignment.
\<close>

fun set_item :: "json \<Rightarrow> string \<Rightarrow> json \<Rightarrow> error + json" where
  "set_item (JObj d) k v = Inr (JObj (AList.update k v d))"
| "set_item JNull k v = Inl TypeError"
| "set_item (JBool b) k v = Inl TypeError"
| "set_item (JInt i) k v = Inl TypeError"
| "set_item (JStr s) k v = Inl TypeError"
| "set_item (JList xs) k v = Inl TypeError"

text \<open>\<^verbatim>\<open>d[k].append(x)\<close>: KeyError without the key, AttributeError when the value is no list.\<close>

definition list_append :: "dict \<Rightarrow> string \<Rightarrow> json \<Rightarrow> error + dict" where
  "list_append d k x =
     (case map_of d k of
        None \<Rightarrow> Inl KeyError
      | Some (JList xs) \<Rightarrow> Inr (AList.update k (JList (xs @ [x])) d)
      | Some _ \<Rightarrow> Inl AttributeError)"

text \<open>\<^verbatim>\<open>len(x)\<close>.\<close>

fun py_len :: "json \<Rightarrow> error + nat" where
  "py_len (JList xs) = Inr (length xs)"
| "py_len (JObj d) = Inr (length d)"
| "py_len (JStr s) = Inr (length s)"
| "py_len JNull = Inl TypeError"
| "py_len (JBool b) = Inl TypeError"
| "py_len (JInt i) = Inl TypeError"

text \<open>The variables the loops of \<open>main\<close> update.\<close>

record merge_state =
  dump :: dict
  existing_keys :: "string set"
  added :: nat
  skipped :: nat

text \<open>Lines 180 to 182: the key of every stored article goes into the set.\<close>

fun seed_keys :: "(json \<Rightarrow> string) \<Rightarrow> json list \<Rightarrow> string set \<Rightarrow> error + string set" where
  "seed_keys repr [] ks = Inr ks"
| "seed_keys repr (item # items) ks =
     (case article_key repr item of
        Inl e \<Rightarrow> Inl e
      | Inr key \<Rightarrow> seed_keys repr items (insert key ks))"

text \<open>Lines 188 to 204. An exception leaves the loop and the program: nothing is saved.\<close>

fun merge_loop ::
  "(json \<Rightarrow> string) \<Rightarrow> string \<Rightarrow> args \<Rightarrow> json list \<Rightarrow> merge_state \<Rightarrow> error + merge_state" where
  "merge_loop repr fetched_at a [] s = Inr s"
| "merge_loop repr fetched_at a (item # items) s =
     (case article_key repr item of
        Inl e \<Rightarrow> Inl e
      | Inr key \<Rightarrow>
          if key \<in> existing_keys s then
            merge_loop repr fetched_at a items (s\<lparr>skipped := skipped s + 1\<rparr>)
          else
            (case set_item item ''fetched_at'' (JStr fetched_at) of
               Inl e \<Rightarrow> Inl e
             | Inr item1 \<Rightarrow>
                 (case set_item item1 ''query_params'' (query_params a) of
                    Inl e \<Rightarrow> Inl e
                  | Inr item2 \<Rightarrow>
                      (case list_append (dump s) ''articles'' item2 of
                         Inl e \<Rightarrow> Inl e
                       | Inr dump' \<Rightarrow>
                           merge_loop repr fetched_at a items
                             (s\<lparr>dump := dump', existing_keys := insert key (existing_keys s),
                                added := added s + 1\<rparr>)))))"

text \<open>The request record of lines 208 to 224.\<close>

definition request_record :: "string \<Rightarrow> args \<Rightarrow> dict \<Rightarrow> nat \<Rightarrow> nat \<Rightarrow> nat \<Rightarrow> json" where
  "request_record fetched_at a response results_count n_added n_skipped =
     JObj [(''fetched_at'', JStr fetched_at), (''params'', query_params a),
           (''status'', dict_get response ''status''),
           (''total_results'', dict_get response ''totalResults''),
           (''results_count'', JInt (int results_count)),
           (''next_page'', dict_get response ''nextPage''),
           (''added'', JInt (int n_added)), (''skipped'', JInt (int n_skipped))]"

text \<open>
  Lines 180 to 225 of \<open>main\<close>: from the fetched \<open>results\<close> and the loaded \<open>dump\<close> to the
  dump that is saved and the two counters that are printed. The clock is the parameter
  \<open>fetched_at\<close>.
\<close>

definition main_merge ::
  "(json \<Rightarrow> string) \<Rightarrow> string \<Rightarrow> args \<Rightarrow> dict \<Rightarrow> json \<Rightarrow> dict \<Rightarrow> error + merge_state" where
  "main_merge repr fetched_at a response results dump0 =
     (case py_iter (case map_of dump0 ''articles'' of None \<Rightarrow> JList [] | Some v \<Rightarrow> v) of
        Inl e \<Rightarrow> Inl e
      | Inr articles \<Rightarrow>
     (case seed_keys repr articles {} of
        Inl e \<Rightarrow> Inl e
      | Inr keys \<Rightarrow>
     (case py_iter results of
        Inl e \<Rightarrow> Inl e
      | Inr items \<Rightarrow>
     (case merge_loop repr fetched_at a items
             \<lparr>dump = dump0, existing_keys = keys, added = 0, skipped = 0\<rparr> of
        Inl e \<Rightarrow> Inl e
      | Inr s \<Rightarrow>
     (case py_len results of
        Inl e \<Rightarrow> Inl e
      | Inr results_count \<Rightarrow>
     (case list_append
             (setdefault ''requests'' (JList [])
                (AList.update ''updated_at'' (JStr fetched_at) (dump s)))
             ''requests''
             (request_record fetched_at a response results_count (added s) (skipped s)) of
        Inl e \<Rightarrow> Inl e
      | Inr dump' \<Rightarrow> Inr (s\<lparr>dump := dump'\<rparr>)))))))"

text \<open>
  Lines 172 to 225 of \<open>main\<close>, from the parsed response of the API: the status check,
  \<^verbatim>\<open>results = response.get("results") or []\<close>, \<open>load_dump\<close>, the merge.
\<close>

definition main :: "(json \<Rightarrow> string) \<Rightarrow> (string \<Rightarrow> json option) \<Rightarrow> (string \<Rightarrow> file_state) \<Rightarrow> string \<Rightarrow> args
    \<Rightarrow> json \<Rightarrow> error + merge_state" where
  "main repr loads fs fetched_at a response_json =
     (case response_json of
        JObj response \<Rightarrow>
          if dict_get response ''status'' \<noteq> JStr ''success'' then
            Inl (SystemExit (''API error: '' @
                   py_str repr (py_or (py_or (dict_get response ''message'')
                                  (dict_get response ''results'')) (JStr ''Unknown error''))))
          else
            (case load_dump loads fs (output_path a) of
               Inl e \<Rightarrow> Inl e
             | Inr dump0 \<Rightarrow>
                 main_merge repr fetched_at a response
                   (py_or (dict_get response ''results'') (JList [])) dump0)
      | _ \<Rightarrow> Inl AttributeError)"

text \<open>
  The items the loop of lines 188 to 204 appends, for a list of records: those whose key
  is not among the keys seen so far.
\<close>

fun new_items :: "(json \<Rightarrow> string) \<Rightarrow> string set \<Rightarrow> dict list \<Rightarrow> dict list" where
  "new_items repr ks [] = []"
| "new_items repr ks (d # ds) =
     (if record_key repr d \<in> ks then new_items repr ks ds
      else d # new_items repr (insert (record_key repr d) ks) ds)"

section \<open>rss_openai_digest.py\<close>

text \<open>
  \<^verbatim>\<open>d[k]\<close> raises KeyError for an absent key. A list or a dict cannot be hashed, so it
  cannot be a member of a set or a key of a dict; \<^verbatim>\<open>True\<close> and \<^verbatim>\<open>1\<close>, \<^verbatim>\<open>False\<close> and
  \<^verbatim>\<open>0\<close> are equal and hash alike, so they are one key.
\<close>

definition index :: "dict \<Rightarrow> string \<Rightarrow> error + json" where
  "index d k = (case map_of d k of None \<Rightarrow> Inl KeyError | Some v \<Rightarrow> Inr v)"

fun hashable :: "json \<Rightarrow> bool" where
  "hashable (JList xs) = False"
| "hashable (JObj d) = False"
| "hashable JNull = True"
| "hashable (JBool b) = True"
| "hashable (JInt i) = True"
| "hashable (JStr s) = True"

fun norm_key :: "json \<Rightarrow> json" where
  "norm_key (JBool b) = JInt (if b then 1 else 0)"
| "norm_key JNull = JNull"
| "norm_key (JInt i) = JInt i"
| "norm_key (JStr s) = JStr s"
| "norm_key (JList xs) = JList xs"
| "norm_key (JObj d) = JObj d"

subsection \<open>main: collecting the items of the feeds\<close>

text \<open>Line 299: \<^verbatim>\<open>item["link"] or item["title"] or item["id"]\<close>, evaluated left to right.\<close>

definition digest_dedupe_key :: "dict \<Rightarrow> error + json" where
  "digest_dedupe_key item =
     (case index item ''link'' of
        Inl e \<Rightarrow> Inl e
      | Inr link \<Rightarrow>
          if truthy link then Inr link
          else
            (case index item ''title'' of
               Inl e \<Rightarrow> Inl e
             | Inr title \<Rightarrow> if truthy title then Inr title else index item ''id''))"

record digest_state =
  items :: "dict list"
  errors :: "json list"
  seen :: "json set"

text \<open>Lines 298 to 304, for the items of one feed.\<close>

fun digest_feed_items :: "string \<Rightarrow> dict list \<Rightarrow> digest_state \<Rightarrow> error + digest_state" where
  "digest_feed_items fetched_at [] s = Inr s"
| "digest_feed_items fetched_at (item # feed_items) s =
     (case digest_dedupe_key item of
        Inl e \<Rightarrow> Inl e
      | Inr dedupe_key \<Rightarrow>
          if \<not> hashable dedupe_key then Inl TypeError
          else if norm_key dedupe_key \<in> seen s then digest_feed_items fetched_at feed_items s
          else
            digest_feed_items fetched_at feed_items
              (s\<lparr>seen := insert (norm_key dedupe_key) (seen s),
                 items := items s @ [AList.update ''fetched_at'' (JStr fetched_at) item]\<rparr>))"

text \<open>
  Lines 283 to 304. Each feed comes with what \<open>fetch_feed_items\<close> did for it: \<open>Inl\<close> the
  text of the exception it raised, \<open>Inr\<close> the items it returned.
\<close>

fun digest_feeds ::
  "string \<Rightarrow> (dict \<times> (string + dict list)) list \<Rightarrow> digest_state \<Rightarrow> error + digest_state" where
  "digest_feeds fetched_at [] s = Inr s"
| "digest_feeds fetched_at ((feed, Inl exc) # feeds) s =
     (case index feed ''feed_url'' of
        Inl e \<Rightarrow> Inl e
      | Inr feed_url \<Rightarrow>
          (case index feed ''source_id'' of
             Inl e \<Rightarrow> Inl e
           | Inr source_id \<Rightarrow>
               digest_feeds fetched_at feeds
                 (s\<lparr>errors := errors s @
                      [JObj [(''feed_url'', feed_url), (''source_id'', source_id),
                             (''error'', JStr exc)]]\<rparr>)))"
| "digest_feeds fetched_at ((feed, Inr feed_items) # feeds) s =
     (case digest_feed_items fetched_at feed_items s of
        Inl e \<Rightarrow> Inl e
      | Inr s' \<Rightarrow> digest_feeds fetched_at feeds s')"

definition digest_collect ::
  "string \<Rightarrow> (dict \<times> (string + dict list)) list \<Rightarrow> error + digest_state" where
  "digest_collect fetched_at feeds =
     digest_feeds fetched_at feeds \<lparr>items = [], errors = [], seen = {}\<rparr>"

subsection \<open>main: attaching the summaries\<close>

text \<open>
  Lines 329 to 333. An entry that is no dict has no \<^verbatim>\<open>get\<close>. The values of \<open>mapping\<close> are
  the entries themselves, which are dicts.
\<close>

fun digest_mapping :: "json list \<Rightarrow> (json \<rightharpoonup> dict) \<Rightarrow> error + (json \<rightharpoonup> dict)" where
  "digest_mapping [] mapping = Inr mapping"
| "digest_mapping (JObj result_item # rest) mapping =
     (let item_key = dict_get result_item ''id'' in
      if truthy item_key then
        (if hashable item_key
         then digest_mapping rest (mapping(norm_key item_key \<mapsto> result_item))
         else Inl TypeError)
      else digest_mapping rest mapping)"
| "digest_mapping (JNull # rest) mapping = Inl AttributeError"
| "digest_mapping (JBool b # rest) mapping = Inl AttributeError"
| "digest_mapping (JInt i # rest) mapping = Inl AttributeError"
| "digest_mapping (JStr s # rest) mapping = Inl AttributeError"
| "digest_mapping (JList xs # rest) mapping = Inl AttributeError"

text \<open>Lines 335 to 339. \<^verbatim>\<open>if ai\<close> is false for no entry and for an empty dict.\<close>

fun digest_augment :: "(json \<rightharpoonup> dict) \<Rightarrow> dict list \<Rightarrow> error + dict list" where
  "digest_augment mapping [] = Inr []"
| "digest_augment mapping (item # rest) =
     (case index item ''id'' of
        Inl e \<Rightarrow> Inl e
      | Inr item_id \<Rightarrow>
          if \<not> hashable item_id then Inl TypeError
          else
            (let item' =
               (case mapping (norm_key item_id) of
                  None \<Rightarrow> item
                | Some ai \<Rightarrow>
                    if ai \<noteq> [] then
                      AList.update ''ai_tags'' (py_or (dict_get ai ''tags'') (JList []))
                        (AList.update ''ai_summary'' (dict_get ai ''summary'') item)
                    else item)
             in (case digest_augment mapping rest of
                   Inl e \<Rightarrow> Inl e
                 | Inr rest' \<Rightarrow> Inr (item' # rest'))))"

text \<open>
  Lines 329 to 339, from the dict \<open>parsed\<close> that \<open>call_openai\<close> returned to the items that
  are written. An exception ends the run before anything is written.
\<close>

definition digest_summarize :: "dict \<Rightarrow> dict list \<Rightarrow> error + dict list" where
  "digest_summarize parsed its =
     (case py_iter (py_or (dict_get parsed ''items'') (JList [])) of
        Inl e \<Rightarrow> Inl e
      | Inr result_items \<Rightarrow>
          (case digest_mapping result_items Map.empty of
             Inl e \<Rightarrow> Inl e
           | Inr mapping \<Rightarrow> digest_augment mapping its))"

section \<open>Properties of newsdata_client.py\<close>

subsection \<open>Dicts and stamping\<close>

lemma dict_get_update:
  "dict_get (AList.update k v d) k' = (if k' = k then v else dict_get d k')"
  by (simp add: dict_get_def update_conv')

lemma setdefault_present: "map_of d k = Some v \<Longrightarrow> setdefault k w d = d"
  by (simp add: setdefault_def)

lemma list_append_list:
  "map_of d k = Some (JList xs) \<Longrightarrow> list_append d k x = Inr (AList.update k (JList (xs @ [x])) d)"
  by (simp add: list_append_def)

text \<open>The two fields \<open>main\<close> adds to an item are not among those \<open>article_key\<close> reads.\<close>

lemma record_key_stamp: "record_key repr (stamp t a d) = record_key repr d"
  by (simp add: record_key_def field_text_def field_text2_def stamp_def dict_get_update Let_def)

subsection \<open>Loading the store\<close>

lemma map_of_setdefault:
  "map_of (setdefault k v d) k' =
     (if k' = k then Some (case map_of d k of None \<Rightarrow> v | Some w \<Rightarrow> w) else map_of d k')"
  by (auto simp add: setdefault_def map_add_def split: option.splits)

lemma map_of_coerce_list:
  "map_of d k = Some w \<Longrightarrow>
   map_of (coerce_list k d) k' =
     (if k' = k then Some (if is_list w then w else JList []) else map_of d k')"
  by (simp add: coerce_list_def dict_get_def update_conv')

lemma load_dump_object:
  assumes "fs path = Text raw" "strip raw \<noteq> []" "loads (strip raw) = Some (JObj data)"
  shows "\<exists>d. load_dump loads fs path = Inr d
         \<and> map_of d ''schema_version''
             = Some (case map_of data ''schema_version'' of None \<Rightarrow> JStr ''1.0'' | Some v \<Rightarrow> v)
         \<and> map_of d ''updated_at''
             = Some (case map_of data ''updated_at'' of None \<Rightarrow> JNull | Some v \<Rightarrow> v)
         \<and> map_of d ''articles''
             = Some (if is_list (dict_get data ''articles'') then dict_get data ''articles''
                     else JList [])
         \<and> map_of d ''requests''
             = Some (if is_list (dict_get data ''requests'') then dict_get data ''requests''
                     else JList [])
         \<and> (\<forall>k. k \<notin> {''schema_version'', ''updated_at'', ''articles'', ''requests''}
                \<longrightarrow> map_of d k = map_of data k)"
proof -
  let ?d1 = "setdefault ''requests'' (JList [])
               (setdefault ''articles'' (JList [])
                 (setdefault ''updated_at'' JNull
                   (setdefault ''schema_version'' (JStr ''1.0'') data)))"
  have a: "map_of ?d1 ''articles''
      = Some (case map_of data ''articles'' of None \<Rightarrow> JList [] | Some w \<Rightarrow> w)"
    by (simp add: map_of_setdefault)
  have r: "map_of (coerce_list ''articles'' ?d1) ''requests''
      = Some (case map_of data ''requests'' of None \<Rightarrow> JList [] | Some w \<Rightarrow> w)"
    by (simp add: map_of_coerce_list [OF a] map_of_setdefault)
  have l: "load_dump loads fs path = Inr (coerce_list ''requests'' (coerce_list ''articles'' ?d1))"
    using assms by (simp add: load_dump_def)
  show ?thesis
    unfolding l
    by (auto simp add: map_of_coerce_list [OF r] map_of_coerce_list [OF a] map_of_setdefault
        dict_get_def split: option.splits)
qed

text \<open>Whatever \<open>load_dump\<close> returns holds a list of articles and a list of requests.\<close>

lemma load_dump_shape:
  assumes "load_dump loads fs path = Inr d"
  shows "\<exists>xs rs. map_of d ''articles'' = Some (JList xs) \<and> map_of d ''requests'' = Some (JList rs)"
proof (cases "fs path")
  case Missing
  with assms show ?thesis by (auto simp add: load_dump_def fresh_dump_def)
next
  case Unreadable
  with assms show ?thesis by (simp add: load_dump_def)
next
  case Undecodable
  with assms show ?thesis by (simp add: load_dump_def)
next
  case (Text raw)
  show ?thesis
  proof (cases "strip raw = []")
    case True
    with Text assms show ?thesis by (auto simp add: load_dump_def fresh_dump_def)
  next
    case False
    show ?thesis
    proof (cases "loads (strip raw)")
      case None
      with Text False assms show ?thesis by (simp add: load_dump_def)
    next
      case (Some j)
      show ?thesis
      proof (cases j)
        case (JList xs)
        with Text False Some assms show ?thesis by (auto simp add: load_dump_def)
      next
        case (JObj data)
        from load_dump_object [of fs path raw loads data] Text False Some JObj assms
        have a: "map_of d ''articles''
             = Some (if is_list (dict_get data ''articles'') then dict_get data ''articles''
                     else JList [])"
          and r: "map_of d ''requests''
             = Some (if is_list (dict_get data ''requests'') then dict_get data ''requests''
                     else JList [])"
          by auto
        have l: "\<exists>xs. (if is_list v then v else JList []) = JList xs" for v
          by (cases v) simp_all
        from a r l [of "dict_get data ''articles''"] l [of "dict_get data ''requests''"]
        show ?thesis by auto
      next
        case JNull
        with Text False Some assms show ?thesis by (simp add: load_dump_def)
      next
        case (JBool b)
        with Text False Some assms show ?thesis by (simp add: load_dump_def)
      next
        case (JInt n)
        with Text False Some assms show ?thesis by (simp add: load_dump_def)
      next
        case (JStr n)
        with Text False Some assms show ?thesis by (simp add: load_dump_def)
      qed
    qed
  qed
qed

text \<open>
  C5. \<open>load_dump\<close> by cases. A missing file, and a file whose text is empty once stripped,
  give a fresh store: version "1.0", null \<open>updated_at\<close>, no articles, no requests. A file
  whose JSON value is a list gives a fresh store with that list as its articles (so as
  many articles as the list has elements) and no requests. A JSON object is returned with
  the four entries present: a missing one gets its default, an \<open>articles\<close> or \<open>requests\<close>
  entry that is no list becomes the empty list, and every other entry is kept. Text that
  does not parse, a file that cannot be read, and a JSON value that is neither an object
  nor a list end the program with a message: the result is an error and holds no store.
\<close>

theorem load_dump_cases:
  "(fs path = Missing \<longrightarrow>
      load_dump loads fs path =
        Inr [(''schema_version'', JStr ''1.0''), (''updated_at'', JNull),
             (''articles'', JList []), (''requests'', JList [])])
   \<and> (fs path = Text raw \<and> strip raw = [] \<longrightarrow>
      load_dump loads fs path =
        Inr [(''schema_version'', JStr ''1.0''), (''updated_at'', JNull),
             (''articles'', JList []), (''requests'', JList [])])
   \<and> (fs path = Text raw \<and> strip raw \<noteq> [] \<and> loads (strip raw) = Some (JList xs) \<longrightarrow>
      load_dump loads fs path =
        Inr [(''schema_version'', JStr ''1.0''), (''updated_at'', JNull),
             (''articles'', JList xs), (''requests'', JList [])])
   \<and> (fs path = Text raw \<and> strip raw \<noteq> [] \<and> loads (strip raw) = Some (JObj data) \<longrightarrow>
      (\<exists>d. load_dump loads fs path = Inr d
         \<and> map_of d ''schema_version''
             = Some (case map_of data ''schema_version'' of None \<Rightarrow> JStr ''1.0'' | Some v \<Rightarrow> v)
         \<and> map_of d ''updated_at''
             = Some (case map_of data ''updated_at'' of None \<Rightarrow> JNull | Some v \<Rightarrow> v)
         \<and> map_of d ''articles''
             = Some (if is_list (dict_get data ''articles'') then dict_get data ''articles''
                     else JList [])
         \<and> map_of d ''requests''
             = Some (if is_list (dict_get data ''requests'') then dict_get data ''requests''
                     else JList [])
         \<and> (\<forall>k. k \<notin> {''schema_version'', ''updated_at'', ''articles'', ''requests''}
                \<longrightarrow> map_of d k = map_of data k)))
   \<and> (fs path = Text raw \<and> strip raw \<noteq> [] \<and> loads (strip raw) = None \<longrightarrow>
      load_dump loads fs path = Inl (SystemExit (''Failed to read or parse '' @ path)))
   \<and> (fs path = Text raw \<and> strip raw \<noteq> [] \<and> loads (strip raw) = Some j
        \<and> \<not> is_list j \<and> \<not> is_record j \<longrightarrow>
      load_dump loads fs path = Inl (SystemExit (''Unexpected JSON format in '' @ path)))
   \<and> (fs path = Unreadable \<longrightarrow>
      load_dump loads fs path = Inl (SystemExit (''Failed to read or parse '' @ path)))"
proof -
  have other: "load_dump loads fs path = Inl (SystemExit (''Unexpected JSON format in '' @ path))"
    if "fs path = Text raw" "strip raw \<noteq> []" "loads (strip raw) = Some j"
      "\<not> is_list j" "\<not> is_record j"
    using that by (cases j) (simp_all add: load_dump_def)
  show ?thesis
    using load_dump_object [of fs path raw loads data] other
    by (simp add: load_dump_def fresh_dump_def)
qed


theorem load_dump_cases_witness:
  "load_dump Map.empty (\<lambda>p. Missing) ''d.json''
     = Inr [(''schema_version'', JStr ''1.0''), (''updated_at'', JNull),
           (''articles'', JList []), (''requests'', JList [])]
   \<and> load_dump Map.empty (\<lambda>p. Text ''  '') ''d.json''
     = Inr [(''schema_version'', JStr ''1.0''), (''updated_at'', JNull),
           (''articles'', JList []), (''requests'', JList [])]
   \<and> load_dump [''[1, 2]'' \<mapsto> JList [JInt 1, JInt 2]] (\<lambda>p. Text '' [1, 2] '') ''d.json''
     = Inr [(''schema_version'', JStr ''1.0''), (''updated_at'', JNull),
           (''articles'', JList [JInt 1, JInt 2]), (''requests'', JList [])]
   \<and> (\<exists>d. load_dump [''{\"articles\": 5, \"note\": \"x\"}''
                        \<mapsto> JObj [(''articles'', JInt 5), (''note'', JStr ''x'')]]
              (\<lambda>p. Text ''{\"articles\": 5, \"note\": \"x\"}'') ''d.json'' = Inr d
        \<and> map_of d ''schema_version'' = Some (JStr ''1.0'')
        \<and> map_of d ''updated_at'' = Some JNull
        \<and> map_of d ''articles'' = Some (JList [])
        \<and> map_of d ''requests'' = Some (JList [])
        \<and> map_of d ''note'' = Some (JStr ''x''))
   \<and> load_dump Map.empty (\<lambda>p. Text ''{'') ''d.json''
     = Inl (SystemExit ''Failed to read or parse d.json'')
   \<and> load_dump [''7'' \<mapsto> JInt 7] (\<lambda>p. Text ''7'') ''d.json''
     = Inl (SystemExit ''Unexpected JSON format in d.json'')
   \<and> load_dump Map.empty (\<lambda>p. Unreadable) ''d.json''
     = Inl (SystemExit ''Failed to read or parse d.json'')"
proof -
  have c1: "load_dump Map.empty (\<lambda>p. Missing) ''d.json'' = Inr [(''schema_version'', JStr ''1.0''), (''updated_at'', JNull),
           (''articles'', JList []), (''requests'', JList [])]"
    using load_dump_cases [where fs = "\<lambda>p. Missing" and path = "''d.json''" and loads = Map.empty
        and raw = "[]" and xs = "[]" and data = "[]" and j = JNull]
    by simp
  have c2: "load_dump Map.empty (\<lambda>p. Text ''  '') ''d.json'' = Inr [(''schema_version'', JStr ''1.0''), (''updated_at'', JNull),
           (''articles'', JList []), (''requests'', JList [])]"
    using load_dump_cases [where fs = "\<lambda>p. Text ''  ''" and path = "''d.json''"
        and loads = Map.empty and raw = "''  ''" and xs = "[]" and data = "[]" and j = JNull]
    by (simp add: strip_def is_space_def)
  have s3: "strip '' [1, 2] '' = ''[1, 2]''"
    by (simp add: strip_def is_space_def)
  have c3: "load_dump [''[1, 2]'' \<mapsto> JList [JInt 1, JInt 2]] (\<lambda>p. Text '' [1, 2] '') ''d.json''
     = Inr [(''schema_version'', JStr ''1.0''), (''updated_at'', JNull),
           (''articles'', JList [JInt 1, JInt 2]), (''requests'', JList [])]"
    using load_dump_cases [where fs = "\<lambda>p. Text '' [1, 2] ''" and path = "''d.json''"
        and loads = "[''[1, 2]'' \<mapsto> JList [JInt 1, JInt 2]]" and raw = "'' [1, 2] ''"
        and xs = "[JInt 1, JInt 2]" and data = "[]" and j = JNull]
    by (simp add: s3)
  have s4: "strip ''{\"articles\": 5, \"note\": \"x\"}'' = ''{\"articles\": 5, \"note\": \"x\"}''"
    by (simp add: strip_def is_space_def)
  have c4: "\<exists>d. load_dump [''{\"articles\": 5, \"note\": \"x\"}''
                        \<mapsto> JObj [(''articles'', JInt 5), (''note'', JStr ''x'')]]
              (\<lambda>p. Text ''{\"articles\": 5, \"note\": \"x\"}'') ''d.json'' = Inr d
        \<and> map_of d ''schema_version'' = Some (JStr ''1.0'')
        \<and> map_of d ''updated_at'' = Some JNull
        \<and> map_of d ''articles'' = Some (JList [])
        \<and> map_of d ''requests'' = Some (JList [])
        \<and> map_of d ''note'' = Some (JStr ''x'')"
  proof -
    from load_dump_cases [where fs = "\<lambda>p. Text ''{\"articles\": 5, \"note\": \"x\"}''"
        and path = "''d.json''"
        and loads = "[''{\"articles\": 5, \"note\": \"x\"}''
                        \<mapsto> JObj [(''articles'', JInt 5), (''note'', JStr ''x'')]]"
        and raw = "''{\"articles\": 5, \"note\": \"x\"}''"
        and xs = "[]" and data = "[(''articles'', JInt 5), (''note'', JStr ''x'')]" and j = JNull]
    obtain d where d: "load_dump [''{\"articles\": 5, \"note\": \"x\"}''
                        \<mapsto> JObj [(''articles'', JInt 5), (''note'', JStr ''x'')]]
              (\<lambda>p. Text ''{\"articles\": 5, \"note\": \"x\"}'') ''d.json'' = Inr d"
      and d1: "map_of d ''schema_version'' = Some (JStr ''1.0'')"
      and d2: "map_of d ''updated_at'' = Some JNull"
      and d3: "map_of d ''articles'' = Some (JList [])"
      and d4: "map_of d ''requests'' = Some (JList [])"
      and d5: "\<forall>k. k \<notin> {''schema_version'', ''updated_at'', ''articles'', ''requests''}
                \<longrightarrow> map_of d k = map_of [(''articles'', JInt 5), (''note'', JStr ''x'')] k"
      unfolding s4 by (simp add: dict_get_def) blast
    from d5 have "map_of d ''note'' = Some (JStr ''x'')"
      by simp
    with d d1 d2 d3 d4 show ?thesis
      by blast
  qed
  have c5: "load_dump Map.empty (\<lambda>p. Text ''{'') ''d.json''
     = Inl (SystemExit ''Failed to read or parse d.json'')"
    using load_dump_cases [where fs = "\<lambda>p. Text ''{''" and path = "''d.json''"
        and loads = Map.empty and raw = "''{''" and xs = "[]" and data = "[]" and j = JNull]
    by (simp add: strip_def is_space_def)
  have c6: "load_dump [''7'' \<mapsto> JInt 7] (\<lambda>p. Text ''7'') ''d.json''
     = Inl (SystemExit ''Unexpected JSON format in d.json'')"
    using load_dump_cases [where fs = "\<lambda>p. Text ''7''" and path = "''d.json''"
        and loads = "[''7'' \<mapsto> JInt 7]" and raw = "''7''" and xs = "[]" and data = "[]"
        and j = "JInt 7"]
    by (simp add: strip_def is_space_def)
  have c7: "load_dump Map.empty (\<lambda>p. Unreadable) ''d.json''
     = Inl (SystemExit ''Failed to read or parse d.json'')"
    using load_dump_cases [where fs = "\<lambda>p. Unreadable" and path = "''d.json''"
        and loads = Map.empty and raw = "[]" and xs = "[]" and data = "[]" and j = JNull]
    by simp
  from c1 c2 c3 c4 c5 c6 c7 show ?thesis
    by (intro conjI)
qed

subsection \<open>The loops of the merge, on records\<close>

lemma seed_keys_records:
  "seed_keys repr (map JObj ds) ks = Inr (ks \<union> record_key repr ` set ds)"
  by (induction ds arbitrary: ks) auto

lemma new_items_length: "length (new_items repr ks ds) \<le> length ds"
  by (induction ds arbitrary: ks) (auto simp: le_SucI)

lemma subseq_new_items: "subseq (new_items repr ks ds) ds"
  by (induction ds arbitrary: ks) auto

lemma new_items_keys:
  "record_key repr ` set (new_items repr ks ds) = record_key repr ` set ds - ks"
  by (induction ds arbitrary: ks) auto

lemma new_items_distinct: "distinct (map (record_key repr) (new_items repr ks ds))"
  by (induction ds arbitrary: ks) (auto simp: new_items_keys)

lemma new_items_seen: "record_key repr ` set ds \<subseteq> ks \<Longrightarrow> new_items repr ks ds = []"
  by (induction ds arbitrary: ks) auto

lemma merge_loop_records:
  "map_of (dump s) ''articles'' = Some (JList xs) \<Longrightarrow>
   merge_loop repr t a (map JObj ds) s =
     Inr \<lparr>dump = AList.update ''articles''
                    (JList (xs @ map (\<lambda>d. JObj (stamp t a d)) (new_items repr (existing_keys s) ds)))
                    (dump s),
          existing_keys = existing_keys s \<union> record_key repr ` set ds,
          added = added s + length (new_items repr (existing_keys s) ds),
          skipped = skipped s + (length ds - length (new_items repr (existing_keys s) ds))\<rparr>"
proof (induction ds arbitrary: s xs)
  case Nil
  then show ?case by (simp add: update_triv)
next
  case (Cons d ds)
  show ?case
  proof (cases "record_key repr d \<in> existing_keys s")
    case True
    have len: "length (new_items repr (existing_keys s) ds) \<le> length ds"
      by (rule new_items_length)
    have m: "map_of (dump (s\<lparr>skipped := Suc (skipped s)\<rparr>)) ''articles'' = Some (JList xs)"
      using Cons.prems by simp
    from True len show ?thesis
      by (simp add: Cons.IH [OF m] Suc_diff_le insert_absorb)
  next
    case False
    let ?x = "JObj (stamp t a d)"
    let ?s = "s\<lparr>dump := AList.update ''articles'' (JList (xs @ [?x])) (dump s),
                existing_keys := insert (record_key repr d) (existing_keys s),
                added := Suc (added s)\<rparr>"
    have m: "map_of (dump ?s) ''articles'' = Some (JList (xs @ [?x]))"
      by (simp add: update_conv')
    from False Cons.prems show ?thesis
      by (simp add: list_append_list stamp_def [symmetric] Cons.IH [OF m])
  qed
qed

text \<open>
  The whole merge, for a dump as \<open>load_dump\<close> returns it (both lists present) whose
  articles are records, and fetched results that are records.
\<close>

lemma main_merge_records:
  assumes arts: "map_of dump0 ''articles'' = Some (JList (map JObj arts))"
    and reqs: "map_of dump0 ''requests'' = Some (JList reqs)"
  shows "main_merge repr t a response (JList (map JObj ds)) dump0 =
     Inr \<lparr>dump =
            AList.update ''requests''
              (JList (reqs @ [request_record t a response (length ds)
                   (length (new_items repr (record_key repr ` set arts) ds))
                   (length ds - length (new_items repr (record_key repr ` set arts) ds))]))
              (AList.update ''updated_at'' (JStr t)
                (AList.update ''articles''
                  (JList (map JObj arts @
                     map (\<lambda>d. JObj (stamp t a d)) (new_items repr (record_key repr ` set arts) ds)))
                  dump0)),
          existing_keys = record_key repr ` set arts \<union> record_key repr ` set ds,
          added = length (new_items repr (record_key repr ` set arts) ds),
          skipped = length ds - length (new_items repr (record_key repr ` set arts) ds)\<rparr>"
proof -
  let ?s0 = "\<lparr>dump = dump0, existing_keys = record_key repr ` set arts, added = 0, skipped = 0\<rparr>"
  have m: "map_of (dump ?s0) ''articles'' = Some (JList (map JObj arts))"
    using arts by simp
  have r: "map_of (AList.update ''updated_at'' (JStr t) (AList.update ''articles'' v dump0)) ''requests''
      = Some (JList reqs)" for v
    using reqs by (simp add: update_conv')
  show ?thesis
    unfolding main_merge_def
    by (simp add: arts seed_keys_records merge_loop_records [OF m]
        setdefault_present [OF r] list_append_list [OF r])
qed

subsection \<open>The merge\<close>

text \<open>
  C1. The store holds one record, whose key is \<open>id:42\<close>, and two items are fetched, one
  with \<open>article_id\<close> "42" and one with "43", in either order. The merge succeeds; the
  articles are then the old record followed by the item "43" with its two stamps, one
  item is counted as added and one as skipped, and one request record is appended, whose
  \<open>added\<close> and \<open>skipped\<close> fields are both 1.
\<close>

theorem merge_scenario:
  assumes arts: "map_of dump0 ''articles'' = Some (JList [JObj e])"
    and reqs: "map_of dump0 ''requests'' = Some (JList reqs)"
    and e: "record_key repr e = ''id:42''"
    and r1: "dict_get r1 ''article_id'' = JStr ''42''"
    and r2: "dict_get r2 ''article_id'' = JStr ''43''"
    and rs: "rs = [r1, r2] \<or> rs = [r2, r1]"
  shows "\<exists>s rr.
     main_merge repr t a response (JList (map JObj rs)) dump0 = Inr s
     \<and> map_of (dump s) ''articles'' = Some (JList [JObj e, JObj (stamp t a r2)])
     \<and> added s = 1 \<and> skipped s = 1
     \<and> map_of (dump s) ''requests'' = Some (JList (reqs @ [JObj rr]))
     \<and> dict_get rr ''added'' = JInt 1 \<and> dict_get rr ''skipped'' = JInt 1"
proof -
  have k1: "record_key repr r1 = ''id:42''"
    using r1 by (simp add: record_key_def field_text_def py_or_def strip_def is_space_def)
  have k2: "record_key repr r2 = ''id:43''"
    using r2 by (simp add: record_key_def field_text_def py_or_def strip_def is_space_def)
  have arts': "map_of dump0 ''articles'' = Some (JList (map JObj [e]))"
    using arts by simp
  have new: "new_items repr {record_key repr e} rs = [r2]"
    using rs by (auto simp add: e k1 k2)
  obtain rr where rr: "request_record t a response 2 (Suc 0) (Suc 0) = JObj rr"
    and ra: "dict_get rr ''added'' = JInt 1" and rk: "dict_get rr ''skipped'' = JInt 1"
    by (simp add: request_record_def dict_get_def)
  have len: "length rs = 2"
    using rs by auto
  note m = main_merge_records [OF arts' reqs, of repr t a response rs]
  show ?thesis
    apply (rule exI)
    apply (rule exI [of _ rr])
    apply (rule conjI)
     apply (rule m)
    apply (simp add: new len update_conv' rr ra rk)
    done
qed

theorem merge_scenario_witness:
  "\<exists>s rr.
     main_merge py_repr ''2024-01-01T00:00:00Z''
       \<lparr>query = None, category = ''top'', country = ''us'', language = ''en'', size_arg = 2,
          page = None, output_path = ''data/newsdata_dump.json''\<rparr>
       [(''status'', JStr ''success''), (''totalResults'', JInt 2)]
       (JList [JObj [(''article_id'', JStr ''42''), (''title'', JStr ''A'')],
               JObj [(''article_id'', JStr ''43''), (''title'', JStr ''B'')]])
       [(''schema_version'', JStr ''1.0''), (''updated_at'', JNull),
          (''articles'', JList [JObj [(''article_id'', JInt 42)]]), (''requests'', JList [])]
       = Inr s
     \<and> map_of (dump s) ''articles''
         = Some (JList [JObj [(''article_id'', JInt 42)],
              JObj (stamp ''2024-01-01T00:00:00Z''
                \<lparr>query = None, category = ''top'', country = ''us'', language = ''en'', size_arg = 2,
          page = None, output_path = ''data/newsdata_dump.json''\<rparr>
                [(''article_id'', JStr ''43''), (''title'', JStr ''B'')])])
     \<and> added s = 1 \<and> skipped s = 1
     \<and> map_of (dump s) ''requests'' = Some (JList [JObj rr])
     \<and> dict_get rr ''added'' = JInt 1 \<and> dict_get rr ''skipped'' = JInt 1"
proof -
  have e: "record_key py_repr [(''article_id'', JInt 42)] = ''id:42''"
    by (simp add: record_key_def field_text_def dict_get_def py_or_def strip_def is_space_def
        show_int_def show_nat.simps)
  show ?thesis
    using merge_scenario [of
        "[(''schema_version'', JStr ''1.0''), (''updated_at'', JNull),
          (''articles'', JList [JObj [(''article_id'', JInt 42)]]), (''requests'', JList [])]"
        "[(''article_id'', JInt 42)]" "[]" py_repr
        "[(''article_id'', JStr ''42''), (''title'', JStr ''A'')]"
        "[(''article_id'', JStr ''43''), (''title'', JStr ''B'')]"
        "[[(''article_id'', JStr ''42''), (''title'', JStr ''A'')],
          [(''article_id'', JStr ''43''), (''title'', JStr ''B'')]]"
        "''2024-01-01T00:00:00Z''"
        "\<lparr>query = None, category = ''top'', country = ''us'', language = ''en'', size_arg = 2,
          page = None, output_path = ''data/newsdata_dump.json''\<rparr>"
        "[(''status'', JStr ''success''), (''totalResults'', JInt 2)]"]
    by (simp add: e dict_get_def)
qed

text \<open>
  C2. Merging the same fetched records a second time, into the store the first merge
  left, adds nothing: the articles are the same sequence as after the first merge, so
  their keys are the same set, the add counter of the second merge is 0 and its skip
  counter is the number of fetched records. Time, arguments and response of the second
  run may differ from the first.
\<close>

theorem merge_idempotent:
  assumes arts: "map_of dump0 ''articles'' = Some (JList (map JObj arts))"
    and reqs: "map_of dump0 ''requests'' = Some (JList reqs)"
  shows "\<exists>s1 s2 arts1 arts2.
     main_merge repr t1 a1 response1 (JList (map JObj ds)) dump0 = Inr s1
     \<and> main_merge repr t2 a2 response2 (JList (map JObj ds)) (dump s1) = Inr s2
     \<and> map_of (dump s1) ''articles'' = Some (JList (map JObj arts1))
     \<and> map_of (dump s2) ''articles'' = Some (JList (map JObj arts2))
     \<and> record_key repr ` set arts2 = record_key repr ` set arts1
     \<and> arts2 = arts1
     \<and> added s2 = 0
     \<and> skipped s2 = length ds"
proof -
  let ?new = "new_items repr (record_key repr ` set arts) ds"
  let ?arts1 = "arts @ map (stamp t1 a1) ?new"
  obtain s1 where s1: "main_merge repr t1 a1 response1 (JList (map JObj ds)) dump0 = Inr s1"
    and a1: "map_of (dump s1) ''articles'' = Some (JList (map JObj ?arts1))"
    and r1: "\<exists>reqs1. map_of (dump s1) ''requests'' = Some (JList reqs1)"
    using main_merge_records [OF arts reqs, of repr t1 a1 response1 ds]
    by (simp add: update_conv' comp_def)
  from r1 obtain reqs1 where r1': "map_of (dump s1) ''requests'' = Some (JList reqs1)" ..
  have sub: "record_key repr ` set ds \<subseteq> record_key repr ` set ?arts1"
    using new_items_keys [of repr "record_key repr ` set arts" ds]
    by (auto simp add: image_Un image_image record_key_stamp)
  have none: "new_items repr (record_key repr ` set ?arts1) ds = []"
    by (rule new_items_seen [OF sub])
  have set1: "set ?arts1 = set arts \<union> stamp t1 a1 ` set ?new"
    by simp
  note m2 = main_merge_records [OF a1 r1', of repr t2 a2 response2 ds]
  show ?thesis
    apply (rule exI [of _ s1])
    apply (rule exI)
    apply (rule exI [of _ ?arts1])
    apply (rule exI [of _ ?arts1])
    apply (rule conjI)
     apply (rule s1)
    apply (rule conjI)
     apply (rule m2)
    apply (simp add: a1 none [unfolded set1] update_conv')
    done
qed

theorem merge_idempotent_witness:
  "\<exists>s1 s2 arts1 arts2.
     main_merge py_repr ''2024-01-01T00:00:00Z''
       \<lparr>query = None, category = ''top'', country = ''us'', language = ''en'', size_arg = 2,
          page = None, output_path = ''data/newsdata_dump.json''\<rparr>
       [(''status'', JStr ''success''), (''totalResults'', JInt 2)]
       (JList (map JObj [[(''article_id'', JStr ''42''), (''title'', JStr ''A'')],
               [(''article_id'', JStr ''43''), (''title'', JStr ''B'')]]))
       [(''schema_version'', JStr ''1.0''), (''updated_at'', JNull),
          (''articles'', JList [JObj [(''article_id'', JInt 42)]]), (''requests'', JList [])]
       = Inr s1
     \<and> main_merge py_repr ''2024-01-02T00:00:00Z''
       \<lparr>query = None, category = ''top'', country = ''us'', language = ''en'', size_arg = 2,
          page = None, output_path = ''data/newsdata_dump.json''\<rparr>
       [(''status'', JStr ''success''), (''totalResults'', JInt 2)]
       (JList (map JObj [[(''article_id'', JStr ''42''), (''title'', JStr ''A'')],
               [(''article_id'', JStr ''43''), (''title'', JStr ''B'')]]))
       (dump s1) = Inr s2
     \<and> map_of (dump s1) ''articles'' = Some (JList (map JObj arts1))
     \<and> map_of (dump s2) ''articles'' = Some (JList (map JObj arts2))
     \<and> record_key py_repr ` set arts2 = record_key py_repr ` set arts1
     \<and> arts2 = arts1
     \<and> added s2 = 0
     \<and> skipped s2 = length [[(''article_id'', JStr ''42''), (''title'', JStr ''A'')],
               [(''article_id'', JStr ''43''), (''title'', JStr ''B'')]]"
  by (rule merge_idempotent [where arts = "[[(''article_id'', JInt 42)]]" and reqs = "[]"]) simp_all

text \<open>
  C6. If no two articles of the store have the same key, no two articles have the same
  key after the merge, whatever records were fetched; and the set of seen keys ends as
  the set of the keys of the articles.
\<close>

theorem merge_keeps_keys_unique:
  assumes arts: "map_of dump0 ''articles'' = Some (JList (map JObj arts))"
    and reqs: "map_of dump0 ''requests'' = Some (JList reqs)"
    and uniq: "distinct (map (record_key repr) arts)"
  shows "\<exists>s arts'.
     main_merge repr t a response (JList (map JObj ds)) dump0 = Inr s
     \<and> map_of (dump s) ''articles'' = Some (JList (map JObj arts'))
     \<and> distinct (map (record_key repr) arts')
     \<and> existing_keys s = record_key repr ` set arts'"
proof -
  let ?new = "new_items repr (record_key repr ` set arts) ds"
  let ?arts' = "arts @ map (stamp t a) ?new"
  note m = main_merge_records [OF arts reqs, of repr t a response ds]
  have keys: "map (record_key repr) (map (stamp t a) ?new) = map (record_key repr) ?new"
    by (simp add: record_key_stamp)
  have k2: "record_key repr ` set ?new = record_key repr ` set ds - record_key repr ` set arts"
    by (rule new_items_keys)
  have d: "distinct (map (record_key repr) ?arts')"
    using uniq new_items_distinct [of repr "record_key repr ` set arts" ds] k2
    by (auto simp add: keys simp del: map_map)
  have e: "record_key repr ` set arts \<union> record_key repr ` set ds = record_key repr ` set ?arts'"
    using k2 by (auto simp add: image_Un image_image record_key_stamp)
  show ?thesis
    apply (rule exI)
    apply (rule exI [of _ ?arts'])
    apply (rule conjI)
     apply (rule m)
    apply (rule conjI)
     apply (simp add: update_conv' comp_def)
    apply (rule conjI)
     apply (rule d)
    apply (simp only: merge_state.simps e)
    done
qed

theorem merge_keeps_keys_unique_witness:
  "\<exists>s arts'.
     main_merge py_repr ''2024-01-01T00:00:00Z''
       \<lparr>query = None, category = ''top'', country = ''us'', language = ''en'', size_arg = 2,
          page = None, output_path = ''data/newsdata_dump.json''\<rparr>
       [(''status'', JStr ''success''), (''totalResults'', JInt 2)]
       (JList (map JObj [[(''article_id'', JStr ''42''), (''title'', JStr ''A'')],
               [(''article_id'', JStr ''43''), (''title'', JStr ''B'')],
               [(''article_id'', JStr ''43''), (''title'', JStr ''B'')]]))
       [(''schema_version'', JStr ''1.0''), (''updated_at'', JNull),
          (''articles'', JList [JObj [(''article_id'', JInt 42)]]), (''requests'', JList [])]
       = Inr s
     \<and> map_of (dump s) ''articles'' = Some (JList (map JObj arts'))
     \<and> distinct (map (record_key py_repr) arts')
     \<and> existing_keys s = record_key py_repr ` set arts'"
  by (rule merge_keeps_keys_unique [where arts = "[[(''article_id'', JInt 42)]]" and reqs = "[]"]) simp_all

text \<open>
  C7. The articles after the merge are the articles before it, unchanged and in place,
  followed by the stamped new records, which are a subsequence of the fetched list: the
  records whose key the store did not hold, each key once. The requests are the requests
  before, followed by the record of this run; \<open>updated_at\<close> is the time of the run; every
  other entry of the store is as it was.
\<close>

theorem merge_append_only:
  assumes arts: "map_of dump0 ''articles'' = Some (JList (map JObj arts))"
    and reqs: "map_of dump0 ''requests'' = Some (JList reqs)"
  shows "\<exists>s new.
     main_merge repr t a response (JList (map JObj ds)) dump0 = Inr s
     \<and> subseq new ds
     \<and> record_key repr ` set new = record_key repr ` set ds - record_key repr ` set arts
     \<and> distinct (map (record_key repr) new)
     \<and> map_of (dump s) ''articles''
         = Some (JList (map JObj arts @ map (\<lambda>d. JObj (stamp t a d)) new))
     \<and> added s = length new \<and> skipped s = length ds - length new
     \<and> map_of (dump s) ''requests''
         = Some (JList (reqs @ [request_record t a response (length ds) (added s) (skipped s)]))
     \<and> map_of (dump s) ''updated_at'' = Some (JStr t)
     \<and> (\<forall>k. k \<notin> {''articles'', ''requests'', ''updated_at''}
            \<longrightarrow> map_of (dump s) k = map_of dump0 k)"
proof -
  let ?new = "new_items repr (record_key repr ` set arts) ds"
  note m = main_merge_records [OF arts reqs, of repr t a response ds]
  show ?thesis
    apply (rule exI)
    apply (rule exI [of _ ?new])
    apply (rule conjI)
     apply (rule m)
    apply (simp add: subseq_new_items new_items_keys new_items_distinct update_conv')
    done
qed

theorem merge_append_only_witness:
  "\<exists>s new.
     main_merge py_repr ''2024-01-01T00:00:00Z''
       \<lparr>query = None, category = ''top'', country = ''us'', language = ''en'', size_arg = 2,
          page = None, output_path = ''data/newsdata_dump.json''\<rparr>
       [(''status'', JStr ''success''), (''totalResults'', JInt 2)]
       (JList (map JObj [[(''article_id'', JStr ''43''), (''title'', JStr ''B'')],
               [(''article_id'', JStr ''42''), (''title'', JStr ''A'')]]))
       [(''schema_version'', JStr ''1.0''), (''updated_at'', JNull),
          (''articles'', JList [JObj [(''article_id'', JInt 42)]]), (''requests'', JList [])]
       = Inr s
     \<and> subseq new [[(''article_id'', JStr ''43''), (''title'', JStr ''B'')],
               [(''article_id'', JStr ''42''), (''title'', JStr ''A'')]]
     \<and> record_key py_repr ` set new
         = record_key py_repr ` set [[(''article_id'', JStr ''43''), (''title'', JStr ''B'')],
               [(''article_id'', JStr ''42''), (''title'', JStr ''A'')]]
           - record_key py_repr ` set [[(''article_id'', JInt 42)]]
     \<and> distinct (map (record_key py_repr) new)
     \<and> map_of (dump s) ''articles''
         = Some (JList (map JObj [[(''article_id'', JInt 42)]] @
              map (\<lambda>d. JObj (stamp ''2024-01-01T00:00:00Z''
                \<lparr>query = None, category = ''top'', country = ''us'', language = ''en'', size_arg = 2,
          page = None, output_path = ''data/newsdata_dump.json''\<rparr> d)) new))
     \<and> added s = length new
     \<and> skipped s = length [[(''article_id'', JStr ''43''), (''title'', JStr ''B'')],
               [(''article_id'', JStr ''42''), (''title'', JStr ''A'')]] - length new
     \<and> map_of (dump s) ''requests''
         = Some (JList ([] @ [request_record ''2024-01-01T00:00:00Z''
                \<lparr>query = None, category = ''top'', country = ''us'', language = ''en'', size_arg = 2,
          page = None, output_path = ''data/newsdata_dump.json''\<rparr>
                [(''status'', JStr ''success''), (''totalResults'', JInt 2)]
                (length [[(''article_id'', JStr ''43''), (''title'', JStr ''B'')],
               [(''article_id'', JStr ''42''), (''title'', JStr ''A'')]]) (added s) (skipped s)]))
     \<and> map_of (dump s) ''updated_at'' = Some (JStr ''2024-01-01T00:00:00Z'')
     \<and> (\<forall>k. k \<notin> {''articles'', ''requests'', ''updated_at''}
            \<longrightarrow> map_of (dump s) k = map_of
          ([(''schema_version'', JStr ''1.0''), (''updated_at'', JNull),
          (''articles'', JList [JObj [(''article_id'', JInt 42)]]), (''requests'', JList [])]) k)"
  by (rule merge_append_only [where arts = "[[(''article_id'', JInt 42)]]" and reqs = "[]"]) simp_all

subsection \<open>The key of an item\<close>

text \<open>
  C3. \<open>article_key\<close> is a function of the item alone, and the first non-empty field
  decides: two records whose external identifiers are equal (and not empty) have the same
  key; two records with empty identifiers whose links are equal (and not empty) have the
  same key; two records with empty identifiers and empty links whose titles, publication
  timestamps and sources are equal have the same key. A field is compared as the function
  reads it, \<^verbatim>\<open>str(item.get(k) or "").strip()\<close>, so equal raw fields are equal here, and
  empty covers an absent, null or blank field.
\<close>

theorem article_key_deterministic:
  "(field_text repr d1 ''article_id'' = field_text repr d2 ''article_id''
      \<and> field_text repr d1 ''article_id'' \<noteq> []
      \<longrightarrow> article_key repr (JObj d1) = article_key repr (JObj d2))
   \<and> (field_text repr d1 ''article_id'' = [] \<and> field_text repr d2 ''article_id'' = []
      \<and> field_text repr d1 ''link'' = field_text repr d2 ''link''
      \<and> field_text repr d1 ''link'' \<noteq> []
      \<longrightarrow> article_key repr (JObj d1) = article_key repr (JObj d2))
   \<and> (field_text repr d1 ''article_id'' = [] \<and> field_text repr d2 ''article_id'' = []
      \<and> field_text repr d1 ''link'' = [] \<and> field_text repr d2 ''link'' = []
      \<and> field_text repr d1 ''title'' = field_text repr d2 ''title''
      \<and> field_text2 repr d1 ''pubDate'' ''published_at''
          = field_text2 repr d2 ''pubDate'' ''published_at''
      \<and> field_text2 repr d1 ''source_id'' ''source_name''
          = field_text2 repr d2 ''source_id'' ''source_name''
      \<longrightarrow> article_key repr (JObj d1) = article_key repr (JObj d2))"
  by (simp add: record_key_def Let_def)

theorem article_key_deterministic_witness:
  "article_key py_repr (JObj [(''article_id'', JStr ''42''), (''link'', JStr ''http://a/1'')])
     = article_key py_repr (JObj [(''article_id'', JInt 42), (''title'', JStr ''B'')])
   \<and> article_key py_repr (JObj [(''link'', JStr ''http://a/1''), (''title'', JStr ''A'')])
     = article_key py_repr
         (JObj [(''article_id'', JStr '' ''), (''link'', JStr ''http://a/1 ''), (''title'', JStr ''B'')])
   \<and> article_key py_repr
         (JObj [(''title'', JStr ''A''), (''pubDate'', JStr ''2024-01-01''), (''source_id'', JStr ''bbc'')])
     = article_key py_repr
         (JObj [(''link'', JNull), (''title'', JStr ''A''), (''published_at'', JStr ''2024-01-01''),
                (''source_name'', JStr ''bbc''), (''description'', JStr ''other'')])"
  using
    article_key_deterministic [of py_repr
      "[(''article_id'', JStr ''42''), (''link'', JStr ''http://a/1'')]"
      "[(''article_id'', JInt 42), (''title'', JStr ''B'')]"]
    article_key_deterministic [of py_repr
      "[(''link'', JStr ''http://a/1''), (''title'', JStr ''A'')]"
      "[(''article_id'', JStr '' ''), (''link'', JStr ''http://a/1 ''), (''title'', JStr ''B'')]"]
    article_key_deterministic [of py_repr
      "[(''title'', JStr ''A''), (''pubDate'', JStr ''2024-01-01''), (''source_id'', JStr ''bbc'')]"
      "[(''link'', JNull), (''title'', JStr ''A''), (''published_at'', JStr ''2024-01-01''),
        (''source_name'', JStr ''bbc''), (''description'', JStr ''other'')]"]
  by (simp add: field_text_def field_text2_def dict_get_def py_or_def strip_def is_space_def
      show_int_def show_nat.simps)

text \<open>The key, by the rule that produced it.\<close>

lemma record_key_by_tier:
  "record_key repr d =
     (case tier_of repr d of
        TierId \<Rightarrow> ''id:'' @ field_text repr d ''article_id''
      | TierLink \<Rightarrow> ''link:'' @ field_text repr d ''link''
      | TierFallback \<Rightarrow>
          ''fallback:'' @ field_text repr d ''title'' @ ''|''
            @ field_text2 repr d ''pubDate'' ''published_at'' @ ''|''
            @ field_text2 repr d ''source_id'' ''source_name'')"
  by (simp add: record_key_def tier_of_def Let_def)

text \<open>
  C4. The rule that produced a key is its prefix, and the three prefixes differ in their
  first character: two records whose keys come from different rules never have the same
  key, whatever their fields hold.
\<close>

theorem tier_namespacing:
  "tier_of repr d1 \<noteq> tier_of repr d2 \<Longrightarrow>
   article_key repr (JObj d1) \<noteq> article_key repr (JObj d2)"
  by (auto simp add: tier_of_def record_key_def Let_def split: if_splits)

theorem tier_namespacing_witness:
  "tier_of py_repr [(''article_id'', JStr ''x'')] \<noteq> tier_of py_repr [(''link'', JStr ''id:x'')]
   \<and> article_key py_repr (JObj [(''article_id'', JStr ''x'')])
       \<noteq> article_key py_repr (JObj [(''link'', JStr ''id:x'')])
   \<and> tier_of py_repr [(''link'', JStr ''x'')] \<noteq> tier_of py_repr [(''title'', JStr ''link:x'')]
   \<and> article_key py_repr (JObj [(''link'', JStr ''x'')])
       \<noteq> article_key py_repr (JObj [(''title'', JStr ''link:x'')])"
  using
    tier_namespacing [of py_repr "[(''article_id'', JStr ''x'')]" "[(''link'', JStr ''id:x'')]"]
    tier_namespacing [of py_repr "[(''link'', JStr ''x'')]" "[(''title'', JStr ''link:x'')]"]
  by (simp add: tier_of_def field_text_def dict_get_def py_or_def strip_def is_space_def)

subsection \<open>Elements that are no records\<close>

lemma article_key_non_record: "\<not> is_record x \<Longrightarrow> article_key repr x = Inl AttributeError"
  by (cases x) simp_all

lemma seed_keys_non_record:
  "\<exists>x\<in>set xs. \<not> is_record x \<Longrightarrow> seed_keys repr xs ks = Inl AttributeError"
proof (induction xs arbitrary: ks)
  case Nil
  then show ?case by simp
next
  case (Cons x xs)
  show ?case
  proof (cases x)
    case (JObj d)
    with Cons.prems have "\<exists>x\<in>set xs. \<not> is_record x" by simp
    from Cons.IH [OF this] JObj show ?thesis by simp
  qed simp_all
qed

lemma field_text_absent: "map_of d k = None \<Longrightarrow> field_text repr d k = []"
  by (simp add: field_text_def dict_get_def py_or_def strip_def)

lemma field_text2_absent:
  "map_of d k = None \<Longrightarrow> map_of d k' = None \<Longrightarrow> field_text2 repr d k k' = []"
  by (simp add: field_text2_def dict_get_def py_or_def strip_def)

text \<open>A record with none of the seven fields \<open>article_key\<close> reads gets the bare fallback key.\<close>

lemma record_key_no_fields:
  assumes "map_of d ''article_id'' = None" "map_of d ''link'' = None" "map_of d ''title'' = None"
    "map_of d ''pubDate'' = None" "map_of d ''published_at'' = None"
    "map_of d ''source_id'' = None" "map_of d ''source_name'' = None"
  shows "article_key repr (JObj d) = Inr ''fallback:||''"
  using assms by (simp add: record_key_def field_text_absent field_text2_absent)

text \<open>
  C8, as the code has it. On a record \<open>article_key\<close> always returns a key: an absent
  field reads as the empty string, and a record with no field at all gets the key
  \<open>fallback:||\<close>; seeding the set of seen keys from a store of records returns the set
  of their keys. On an element that is no record (a bare string, a number, a list,
  \<^verbatim>\<open>null\<close>) \<open>article_key\<close> raises AttributeError, so seeding from a store that holds
  such an element fails and the merge ends with that error.
\<close>

theorem article_key_records_only:
  "(\<exists>key. article_key repr (JObj d) = Inr key)
   \<and> (map_of d k = None \<longrightarrow> field_text repr d k = [])
   \<and> (map_of d k = None \<and> map_of d k' = None \<longrightarrow> field_text2 repr d k k' = [])
   \<and> article_key repr (JObj []) = Inr ''fallback:||''
   \<and> seed_keys repr (map JObj ds) {} = Inr (record_key repr ` set ds)
   \<and> (\<not> is_record x \<longrightarrow> article_key repr x = Inl AttributeError)
   \<and> ((\<exists>x\<in>set xs. \<not> is_record x) \<longrightarrow> seed_keys repr xs ks = Inl AttributeError)
   \<and> (map_of store ''articles'' = Some (JList xs) \<and> (\<exists>x\<in>set xs. \<not> is_record x) \<longrightarrow>
        main_merge repr t a response results store = Inl AttributeError)"
proof -
  have e: "article_key repr (JObj []) = Inr ''fallback:||''"
    by (simp add: record_key_def field_text_absent field_text2_absent)
  have m: "main_merge repr t a response results store = Inl AttributeError"
    if "map_of store ''articles'' = Some (JList xs)" "\<exists>x\<in>set xs. \<not> is_record x"
    using that by (simp add: main_merge_def seed_keys_non_record)
  show ?thesis
    using e m
    by (simp add: field_text_absent field_text2_absent seed_keys_records article_key_non_record
        seed_keys_non_record)
qed

theorem article_key_records_only_witness:
  "(\<exists>key. article_key py_repr (JObj [(''title'', JStr ''A'')]) = Inr key)
   \<and> field_text py_repr [(''title'', JStr ''A'')] ''article_id'' = []
   \<and> field_text2 py_repr [(''title'', JStr ''A'')] ''pubDate'' ''published_at'' = []
   \<and> seed_keys py_repr (map JObj [[(''title'', JStr ''A'')], []]) {}
       = Inr (record_key py_repr ` set [[(''title'', JStr ''A'')], []])
   \<and> article_key py_repr (JStr ''abc'') = Inl AttributeError
   \<and> seed_keys py_repr [JObj [], JStr ''abc''] {} = Inl AttributeError
   \<and> main_merge py_repr ''2024-01-01T00:00:00Z''
        \<lparr>query = None, category = ''top'', country = ''us'', language = ''en'', size_arg = 1,
         page = None, output_path = ''data/newsdata_dump.json''\<rparr>
        [(''status'', JStr ''success'')] (JList [])
        [(''articles'', JList [JObj [], JStr ''abc'']), (''requests'', JList [])]
      = Inl AttributeError"
  using article_key_records_only [where repr = py_repr and d = "[(''title'', JStr ''A'')]"
      and k = "''article_id''" and k' = "''link''" and ds = "[[(''title'', JStr ''A'')], []]" and x = "JStr ''abc''"
      and xs = "[JObj [], JStr ''abc'']" and ks = "{}"
      and store = "[(''articles'', JList [JObj [], JStr ''abc'']), (''requests'', JList [])]"
      and t = "''2024-01-01T00:00:00Z''"
      and a = "\<lparr>query = None, category = ''top'', country = ''us'', language = ''en'',
         size_arg = 1, page = None, output_path = ''data/newsdata_dump.json''\<rparr>"
      and response = "[(''status'', JStr ''success'')]" and results = "JList []"]
    article_key_records_only [where repr = py_repr and d = "[(''title'', JStr ''A'')]"
      and k = "''pubDate''" and k' = "''published_at''" and ds = "[]" and x = JNull and xs = "[]"
      and ks = "{}" and store = "[]" and t = "[]"
      and a = "\<lparr>query = None, category = ''top'', country = ''us'', language = ''en'',
         size_arg = 1, page = None, output_path = ''data/newsdata_dump.json''\<rparr>"
      and response = "[]" and results = "JList []"]
  by (simp add: insert_commute)

text \<open>
  C8 as stated fails: the key of a bare string is not computed, and seeding the seen keys
  from a store holding one raises AttributeError.
\<close>

theorem article_key_bare_string_counterexample:
  "article_key py_repr (JStr ''abc'') = Inl AttributeError
   \<and> seed_keys py_repr [JObj [(''article_id'', JStr ''42'')], JStr ''abc''] {} = Inl AttributeError
   \<and> main_merge py_repr ''2024-01-01T00:00:00Z''
        \<lparr>query = None, category = ''top'', country = ''us'', language = ''en'', size_arg = 1,
         page = None, output_path = ''data/newsdata_dump.json''\<rparr>
        [(''status'', JStr ''success'')] (JList [])
        [(''schema_version'', JStr ''1.0''), (''updated_at'', JNull),
         (''articles'', JList [JStr ''abc'']), (''requests'', JList [])]
      = Inl AttributeError"
  by (simp add: main_merge_def)

section \<open>Properties of rss_openai_digest.py\<close>

subsection \<open>The key that drops duplicates within a run\<close>

lemma digest_dedupe_key_strings:
  "map_of item ''link'' = Some (JStr l) \<Longrightarrow> map_of item ''title'' = Some (JStr t) \<Longrightarrow>
   map_of item ''id'' = Some (JStr i) \<Longrightarrow>
   digest_dedupe_key item = Inr (JStr (if l \<noteq> [] then l else if t \<noteq> [] then t else i))"
  by (simp add: digest_dedupe_key_def index_def)

lemma digest_dedupe_key_link:
  "map_of item ''link'' = Some (JStr l) \<Longrightarrow> l \<noteq> [] \<Longrightarrow> digest_dedupe_key item = Inr (JStr l)"
  by (simp add: digest_dedupe_key_def index_def)

lemma digest_dedupe_key_title:
  "map_of item ''link'' = Some (JStr []) \<Longrightarrow> map_of item ''title'' = Some (JStr t) \<Longrightarrow> t \<noteq> [] \<Longrightarrow>
   digest_dedupe_key item = Inr (JStr t)"
  by (simp add: digest_dedupe_key_def index_def)

text \<open>
  C10. The key of line 299 has no prefix naming its rule: for an item whose link, title
  and id are strings it is the link when that is not empty, else the title when that is
  not empty, else the id the item carries (in the source, the first twelve hexadecimal
  digits of a SHA-1 of source and link or title). So an item with an
  empty link whose title is the link of an earlier item has the key of that item and is
  dropped without a trace, in the same feed or in a later one; and such a run exists.
\<close>

theorem dedupe_key_not_namespaced:
  "(map_of item ''link'' = Some (JStr l) \<and> map_of item ''title'' = Some (JStr t)
      \<and> map_of item ''id'' = Some (JStr i) \<longrightarrow>
      digest_dedupe_key item = Inr (JStr (if l \<noteq> [] then l else if t \<noteq> [] then t else i)))
   \<and> (map_of x ''link'' = Some (JStr u) \<and> u \<noteq> []
      \<and> map_of y ''link'' = Some (JStr []) \<and> map_of y ''title'' = Some (JStr u) \<longrightarrow>
      x \<noteq> y
      \<and> digest_collect fetched_at [(feed, Inr [x, y])]
          = Inr \<lparr>items = [AList.update ''fetched_at'' (JStr fetched_at) x], errors = [],
                 seen = {JStr u}\<rparr>
      \<and> digest_collect fetched_at [(feed, Inr [x]), (feed', Inr [y])]
          = Inr \<lparr>items = [AList.update ''fetched_at'' (JStr fetched_at) x], errors = [],
                 seen = {JStr u}\<rparr>)
   \<and> (\<exists>x y s. x \<noteq> y \<and> dict_get y ''link'' = JStr [] \<and> dict_get y ''title'' = dict_get x ''link''
        \<and> digest_collect fetched_at [(feed, Inr [x, y])] = Inr s
        \<and> items s = [AList.update ''fetched_at'' (JStr fetched_at) x])"
proof -
  have pair: "x \<noteq> y
      \<and> digest_collect fetched_at [(feed, Inr [x, y])]
          = Inr \<lparr>items = [AList.update ''fetched_at'' (JStr fetched_at) x], errors = [],
                 seen = {JStr u}\<rparr>
      \<and> digest_collect fetched_at [(feed, Inr [x]), (feed', Inr [y])]
          = Inr \<lparr>items = [AList.update ''fetched_at'' (JStr fetched_at) x], errors = [],
                 seen = {JStr u}\<rparr>"
    if "map_of x ''link'' = Some (JStr u)" "u \<noteq> []"
      "map_of y ''link'' = Some (JStr [])" "map_of y ''title'' = Some (JStr u)"
    for x y :: dict and u feed feed'
  proof -
    have kx: "digest_dedupe_key x = Inr (JStr u)"
      using that by (simp add: digest_dedupe_key_link)
    have ky: "digest_dedupe_key y = Inr (JStr u)"
      using that by (simp add: digest_dedupe_key_title)
    have ne: "x \<noteq> y"
      using that by auto
    show ?thesis
      by (simp add: ne digest_collect_def kx ky)
  qed
  let ?x = "[(''id'', JStr ''3f2a9c1b7e0d''), (''title'', JStr ''First''), (''link'', JStr ''http://a/1'')]"
  let ?y = "[(''id'', JStr ''9b1d04c2aa57''), (''title'', JStr ''http://a/1''), (''link'', JStr [])]"
  have ex: "\<exists>x y s. x \<noteq> y \<and> dict_get y ''link'' = JStr [] \<and> dict_get y ''title'' = dict_get x ''link''
        \<and> digest_collect fetched_at [(feed, Inr [x, y])] = Inr s
        \<and> items s = [AList.update ''fetched_at'' (JStr fetched_at) x]"
  proof -
    let ?s = "\<lparr>items = [AList.update ''fetched_at'' (JStr fetched_at) ?x], errors = [],
                 seen = {JStr ''http://a/1''}\<rparr>"
    have p: "?x \<noteq> ?y \<and> digest_collect fetched_at [(feed, Inr [?x, ?y])] = Inr ?s"
      using pair [of ?x "''http://a/1''" ?y feed feed] by simp
    have g1: "dict_get ?y ''link'' = JStr []"
      by (simp add: dict_get_def)
    have g2: "dict_get ?y ''title'' = dict_get ?x ''link''"
      by (simp add: dict_get_def)
    have i: "items ?s = [AList.update ''fetched_at'' (JStr fetched_at) ?x]"
      by simp
    show ?thesis
      apply (rule exI [of _ ?x])
      apply (rule exI [of _ ?y])
      apply (rule exI [of _ ?s])
      apply (intro conjI)
          apply (rule p [THEN conjunct1])
         apply (rule g1)
        apply (rule g2)
       apply (rule p [THEN conjunct2])
      apply (rule i)
      done
  qed
  show ?thesis
    using pair ex by (simp add: digest_dedupe_key_strings)
qed


theorem dedupe_key_not_namespaced_witness:
  "digest_dedupe_key [(''id'', JStr ''3f2a9c1b7e0d''), (''title'', JStr ''First''), (''link'', JStr ''http://a/1'')]
     = Inr (JStr ''http://a/1'')
   \<and> digest_dedupe_key [(''id'', JStr ''9b1d04c2aa57''), (''title'', JStr ''http://a/1''), (''link'', JStr [])]
     = Inr (JStr ''http://a/1'')
   \<and> digest_dedupe_key [(''id'', JStr ''c0ffee123456''), (''title'', JStr []), (''link'', JStr [])]
     = Inr (JStr ''c0ffee123456'')
   \<and> digest_collect ''2024-01-01T00:00:00Z''
        [([(''feed_url'', JStr ''http://a/rss''), (''source_id'', JStr ''a'')],
          Inr [[(''id'', JStr ''3f2a9c1b7e0d''), (''title'', JStr ''First''), (''link'', JStr ''http://a/1'')],
               [(''id'', JStr ''9b1d04c2aa57''), (''title'', JStr ''http://a/1''), (''link'', JStr [])]])]
     = Inr \<lparr>items = [[(''id'', JStr ''3f2a9c1b7e0d''), (''title'', JStr ''First''), (''link'', JStr ''http://a/1''),
               (''fetched_at'', JStr ''2024-01-01T00:00:00Z'')]],
            errors = [], seen = {JStr ''http://a/1''}\<rparr>
   \<and> digest_collect ''2024-01-01T00:00:00Z''
        [([(''feed_url'', JStr ''http://a/rss''), (''source_id'', JStr ''a'')],
          Inr [[(''id'', JStr ''3f2a9c1b7e0d''), (''title'', JStr ''First''), (''link'', JStr ''http://a/1'')]]),
         ([(''feed_url'', JStr ''http://b/rss''), (''source_id'', JStr ''b'')],
          Inr [[(''id'', JStr ''9b1d04c2aa57''), (''title'', JStr ''http://a/1''), (''link'', JStr [])]])]
     = Inr \<lparr>items = [[(''id'', JStr ''3f2a9c1b7e0d''), (''title'', JStr ''First''), (''link'', JStr ''http://a/1''),
               (''fetched_at'', JStr ''2024-01-01T00:00:00Z'')]],
            errors = [], seen = {JStr ''http://a/1''}\<rparr>"
  using
    dedupe_key_not_namespaced [where item = "[(''id'', JStr ''3f2a9c1b7e0d''), (''title'', JStr ''First''), (''link'', JStr ''http://a/1'')]"
      and l = "''http://a/1''" and t = "''First''" and i = "''3f2a9c1b7e0d''"
      and x = "[(''id'', JStr ''3f2a9c1b7e0d''), (''title'', JStr ''First''), (''link'', JStr ''http://a/1'')]"
      and u = "''http://a/1''"
      and y = "[(''id'', JStr ''9b1d04c2aa57''), (''title'', JStr ''http://a/1''), (''link'', JStr [])]"
      and fetched_at = "''2024-01-01T00:00:00Z''"
      and feed = "[(''feed_url'', JStr ''http://a/rss''), (''source_id'', JStr ''a'')]"
      and feed' = "[(''feed_url'', JStr ''http://b/rss''), (''source_id'', JStr ''b'')]"]
    dedupe_key_not_namespaced [where item = "[(''id'', JStr ''9b1d04c2aa57''), (''title'', JStr ''http://a/1''), (''link'', JStr [])]"
      and l = "[]" and t = "''http://a/1''" and i = "''9b1d04c2aa57''"
      and x = "[]" and u = "[]" and y = "[]" and fetched_at = "[]" and feed = "[]" and feed' = "[]"]
    dedupe_key_not_namespaced [where item = "[(''id'', JStr ''c0ffee123456''), (''title'', JStr []), (''link'', JStr [])]"
      and l = "[]" and t = "[]" and i = "''c0ffee123456''"
      and x = "[]" and u = "[]" and y = "[]" and fetched_at = "[]" and feed = "[]" and feed' = "[]"]
  by simp

subsection \<open>Attaching the summaries\<close>

lemma norm_key_JStr: "norm_key k = JStr i \<longleftrightarrow> k = JStr i"
  by (cases k) auto

lemma digest_mapping_records:
  assumes "\<forall>e\<in>set es. truthy (dict_get e ''id'') \<longrightarrow> hashable (dict_get e ''id'')"
  shows "\<exists>m'. digest_mapping (map JObj es) m = Inr m'
     \<and> (\<forall>i. i \<noteq> [] \<longrightarrow>
          (if JStr i \<in> (\<lambda>e. dict_get e ''id'') ` set es
           then \<exists>e\<in>set es. dict_get e ''id'' = JStr i \<and> m' (JStr i) = Some e
           else m' (JStr i) = m (JStr i)))"
  using assms
proof (induction es arbitrary: m)
  case Nil
  then show ?case by simp
next
  case (Cons e es)
  let ?k = "dict_get e ''id''"
  have rest: "\<forall>e\<in>set es. truthy (dict_get e ''id'') \<longrightarrow> hashable (dict_get e ''id'')"
    using Cons.prems by simp
  show ?case
  proof (cases "truthy ?k")
    case False
    from Cons.IH [OF rest, of m] obtain m' where
      m': "digest_mapping (map JObj es) m = Inr m'"
      and p: "\<forall>i. i \<noteq> [] \<longrightarrow>
          (if JStr i \<in> (\<lambda>e. dict_get e ''id'') ` set es
           then \<exists>e\<in>set es. dict_get e ''id'' = JStr i \<and> m' (JStr i) = Some e
           else m' (JStr i) = m (JStr i))"
      by blast
    have ne: "JStr i \<noteq> ?k" if "i \<noteq> []" for i
      using False that by (metis truthy.simps(4))
    have "digest_mapping (map JObj (e # es)) m = Inr m'"
      using False m' by (simp add: Let_def)
    moreover have "\<forall>i. i \<noteq> [] \<longrightarrow>
          (if JStr i \<in> (\<lambda>e. dict_get e ''id'') ` set (e # es)
           then \<exists>e'\<in>set (e # es). dict_get e' ''id'' = JStr i \<and> m' (JStr i) = Some e'
           else m' (JStr i) = m (JStr i))"
      using p ne by (simp add: image_iff)
    ultimately show ?thesis
      by blast
  next
    case True
    then have h: "hashable ?k"
      using Cons.prems by simp
    let ?m1 = "m(norm_key ?k \<mapsto> e)"
    from Cons.IH [OF rest, of ?m1] obtain m' where
      m': "digest_mapping (map JObj es) ?m1 = Inr m'"
      and p: "\<forall>i. i \<noteq> [] \<longrightarrow>
          (if JStr i \<in> (\<lambda>e. dict_get e ''id'') ` set es
           then \<exists>e\<in>set es. dict_get e ''id'' = JStr i \<and> m' (JStr i) = Some e
           else m' (JStr i) = ?m1 (JStr i))"
      by blast
    have "digest_mapping (map JObj (e # es)) m = Inr m'"
      using True h m' by (simp add: Let_def)
    moreover have "i \<noteq> [] \<longrightarrow>
          (if JStr i \<in> (\<lambda>e. dict_get e ''id'') ` set (e # es)
           then \<exists>e'\<in>set (e # es). dict_get e' ''id'' = JStr i \<and> m' (JStr i) = Some e'
           else m' (JStr i) = m (JStr i))" for i
    proof (cases "JStr i \<in> (\<lambda>e. dict_get e ''id'') ` set es")
      case True
      with p show ?thesis by auto
    next
      case False
      show ?thesis
      proof
        assume i: "i \<noteq> []"
        with p False have eq: "m' (JStr i) = ?m1 (JStr i)" by simp
        show "if JStr i \<in> (\<lambda>e. dict_get e ''id'') ` set (e # es)
           then \<exists>e'\<in>set (e # es). dict_get e' ''id'' = JStr i \<and> m' (JStr i) = Some e'
           else m' (JStr i) = m (JStr i)"
        proof (cases "?k = JStr i")
          case True
          then show ?thesis using eq by simp
        next
          case k: False
          then have "norm_key ?k \<noteq> JStr i" by (simp add: norm_key_JStr)
          with k False eq show ?thesis by auto
        qed
      qed
    qed
    ultimately show ?thesis
      by blast
  qed
qed

lemma digest_augment_strings:
  "\<forall>it\<in>set its. \<exists>i. map_of it ''id'' = Some (JStr i) \<Longrightarrow>
   digest_augment m its =
     Inr (map (\<lambda>item.
            case m (dict_get item ''id'') of
              None \<Rightarrow> item
            | Some ai \<Rightarrow>
                if ai \<noteq> [] then
                  AList.update ''ai_tags'' (py_or (dict_get ai ''tags'') (JList []))
                    (AList.update ''ai_summary'' (dict_get ai ''summary'') item)
                else item) its)"
  by (induction its) (auto simp add: index_def dict_get_def)

text \<open>
  C9, as the code has it. The items are those the run collected, each with a non-empty
  string as its id; the parsed response is a JSON object whose \<open>items\<close>, if it has any,
  are objects keyed by an id (an id that is a non-empty list or object cannot be a key).
  Then the step returns, so the run goes on to write its output, with one item out for
  each item in, in the same order: an item whose id is the id of an entry of the response
  gets \<open>ai_summary\<close> and \<open>ai_tags\<close> from an entry with that id (its summary, and its tags
  or the empty list), and an item whose id is the id of no entry is returned as it was.
  With three items and entries for two of them, exactly those two carry the new fields.
\<close>

theorem partial_summarization:
  assumes resp: "py_or (dict_get parsed ''items'') (JList []) = JList (map JObj es)"
    and ids: "\<forall>e\<in>set es. truthy (dict_get e ''id'') \<longrightarrow> hashable (dict_get e ''id'')"
    and its: "\<forall>it\<in>set its. \<exists>i. i \<noteq> [] \<and> map_of it ''id'' = Some (JStr i)"
  shows "\<exists>its'. digest_summarize parsed its = Inr its'
     \<and> list_all2 (\<lambda>it it'.
          if dict_get it ''id'' \<in> (\<lambda>e. dict_get e ''id'') ` set es
          then \<exists>e\<in>set es. dict_get e ''id'' = dict_get it ''id''
                 \<and> it' = AList.update ''ai_tags'' (py_or (dict_get e ''tags'') (JList []))
                          (AList.update ''ai_summary'' (dict_get e ''summary'') it)
          else it' = it) its its'"
proof -
  from digest_mapping_records [OF ids, of Map.empty] obtain m' where
    m': "digest_mapping (map JObj es) Map.empty = Inr m'"
    and p: "\<forall>i. i \<noteq> [] \<longrightarrow>
          (if JStr i \<in> (\<lambda>e. dict_get e ''id'') ` set es
           then \<exists>e\<in>set es. dict_get e ''id'' = JStr i \<and> m' (JStr i) = Some e
           else m' (JStr i) = None)"
    by auto
  let ?f = "\<lambda>item.
            case m' (dict_get item ''id'') of
              None \<Rightarrow> item
            | Some ai \<Rightarrow>
                if ai \<noteq> [] then
                  AList.update ''ai_tags'' (py_or (dict_get ai ''tags'') (JList []))
                    (AList.update ''ai_summary'' (dict_get ai ''summary'') item)
                else item"
  have its1: "\<forall>it\<in>set its. \<exists>i. map_of it ''id'' = Some (JStr i)"
    using its by blast
  have iter: "py_iter (py_or (dict_get parsed ''items'') (JList [])) = Inr (map JObj es)"
    by (simp add: resp)
  have run: "digest_summarize parsed its = Inr (map ?f its)"
    by (simp add: digest_summarize_def iter m' digest_augment_strings [OF its1])
  have each: "if dict_get it ''id'' \<in> (\<lambda>e. dict_get e ''id'') ` set es
          then \<exists>e\<in>set es. dict_get e ''id'' = dict_get it ''id''
                 \<and> ?f it = AList.update ''ai_tags'' (py_or (dict_get e ''tags'') (JList []))
                          (AList.update ''ai_summary'' (dict_get e ''summary'') it)
          else ?f it = it"
    if "it \<in> set its" for it
  proof -
    from its that obtain i where i: "i \<noteq> []" and g: "dict_get it ''id'' = JStr i"
      by (auto simp add: dict_get_def)
    show ?thesis
    proof (cases "JStr i \<in> (\<lambda>e. dict_get e ''id'') ` set es")
      case True
      from p i have "if JStr i \<in> (\<lambda>e. dict_get e ''id'') ` set es
           then \<exists>e\<in>set es. dict_get e ''id'' = JStr i \<and> m' (JStr i) = Some e
           else m' (JStr i) = None"
        by blast
      with True have "\<exists>e\<in>set es. dict_get e ''id'' = JStr i \<and> m' (JStr i) = Some e"
        by (simp only: if_True)
      then obtain e where e: "e \<in> set es" "dict_get e ''id'' = JStr i" "m' (JStr i) = Some e"
        by blast
      from e(2) have "e \<noteq> []"
        by (auto simp add: dict_get_def)
      with e True show ?thesis
        by (auto simp add: g)
    next
      case False
      with p i have "m' (JStr i) = None" by simp
      with False show ?thesis by (simp add: g)
    qed
  qed
  have "list_all2 (\<lambda>it it'.
          if dict_get it ''id'' \<in> (\<lambda>e. dict_get e ''id'') ` set es
          then \<exists>e\<in>set es. dict_get e ''id'' = dict_get it ''id''
                 \<and> it' = AList.update ''ai_tags'' (py_or (dict_get e ''tags'') (JList []))
                          (AList.update ''ai_summary'' (dict_get e ''summary'') it)
          else it' = it) its (map ?f its)"
    unfolding list_all2_map2 list_all2_same using each by blast
  with run show ?thesis
    by blast
qed

theorem partial_summarization_witness:
  "digest_summarize
     [(''items'', JList [JObj [(''id'', JStr ''3f2a9c1b7e0d''), (''summary'', JStr ''One.''),
             (''tags'', JList [JStr ''x'', JStr ''y''])],
           JObj [(''id'', JStr ''c0ffee123456'')]])]
     [[(''id'', JStr ''3f2a9c1b7e0d''), (''title'', JStr ''First'')],
      [(''id'', JStr ''9b1d04c2aa57''), (''title'', JStr ''Second'')],
      [(''id'', JStr ''c0ffee123456''), (''title'', JStr ''Third'')]]
   = Inr [[(''id'', JStr ''3f2a9c1b7e0d''), (''title'', JStr ''First''),
             (''ai_summary'', JStr ''One.''), (''ai_tags'', JList [JStr ''x'', JStr ''y''])],
          [(''id'', JStr ''9b1d04c2aa57''), (''title'', JStr ''Second'')],
          [(''id'', JStr ''c0ffee123456''), (''title'', JStr ''Third''),
             (''ai_summary'', JNull), (''ai_tags'', JList [])]]"
proof -
  from partial_summarization [where
      parsed = "[(''items'', JList [JObj [(''id'', JStr ''3f2a9c1b7e0d''), (''summary'', JStr ''One.''),
             (''tags'', JList [JStr ''x'', JStr ''y''])],
           JObj [(''id'', JStr ''c0ffee123456'')]])]"
      and es = "[[(''id'', JStr ''3f2a9c1b7e0d''), (''summary'', JStr ''One.''),
             (''tags'', JList [JStr ''x'', JStr ''y''])],
           [(''id'', JStr ''c0ffee123456'')]]"
      and its = "[[(''id'', JStr ''3f2a9c1b7e0d''), (''title'', JStr ''First'')],
      [(''id'', JStr ''9b1d04c2aa57''), (''title'', JStr ''Second'')],
      [(''id'', JStr ''c0ffee123456''), (''title'', JStr ''Third'')]]"]
  obtain its' where
    r: "digest_summarize
     [(''items'', JList [JObj [(''id'', JStr ''3f2a9c1b7e0d''), (''summary'', JStr ''One.''),
             (''tags'', JList [JStr ''x'', JStr ''y''])],
           JObj [(''id'', JStr ''c0ffee123456'')]])]
     [[(''id'', JStr ''3f2a9c1b7e0d''), (''title'', JStr ''First'')],
      [(''id'', JStr ''9b1d04c2aa57''), (''title'', JStr ''Second'')],
      [(''id'', JStr ''c0ffee123456''), (''title'', JStr ''Third'')]] = Inr its'"
    and l: "its' = [[(''id'', JStr ''3f2a9c1b7e0d''), (''title'', JStr ''First''),
             (''ai_summary'', JStr ''One.''), (''ai_tags'', JList [JStr ''x'', JStr ''y''])],
          [(''id'', JStr ''9b1d04c2aa57''), (''title'', JStr ''Second'')],
          [(''id'', JStr ''c0ffee123456''), (''title'', JStr ''Third''),
             (''ai_summary'', JNull), (''ai_tags'', JList [])]]"
    by (auto simp add: dict_get_def py_or_def list_all2_Cons1)
  then show ?thesis
    by simp
qed

text \<open>
  C9 as stated fails: not every parsed response lets the run complete. Lines 330 to 333
  call \<^verbatim>\<open>get\<close> on each entry of \<open>items\<close> and use its id as a key without a check, so
  an entry that is a bare string raises AttributeError, and an entry whose id is a list
  raises TypeError; either ends the run before anything is written.
\<close>

theorem partial_summarization_counterexample:
  "digest_summarize [(''items'', JList [JStr ''x''])]
     [[(''id'', JStr ''3f2a9c1b7e0d''), (''title'', JStr ''First'')],
      [(''id'', JStr ''9b1d04c2aa57''), (''title'', JStr ''Second'')],
      [(''id'', JStr ''c0ffee123456''), (''title'', JStr ''Third'')]]
   = Inl AttributeError
   \<and> digest_summarize [(''items'', JList [JObj [(''id'', JList [JStr ''3f2a9c1b7e0d''])]])]
     [[(''id'', JStr ''3f2a9c1b7e0d''), (''title'', JStr ''First'')],
      [(''id'', JStr ''9b1d04c2aa57''), (''title'', JStr ''Second'')],
      [(''id'', JStr ''c0ffee123456''), (''title'', JStr ''Third'')]]
   = Inl TypeError"
  by (simp add: digest_summarize_def dict_get_def py_or_def)

end
